theory Spec2Isabelle
  imports Main "HOL-Library.Char_ord" "HOL-Library.List_Lexorder" "HOL-Library.Multiset"
begin

section \<open>landslide: the Generator class of generator.py\<close>

text \<open>
  A shallow embedding of \<^verbatim>\<open>src/landslide/generator.py\<close> (Python 2). Exceptions are
  values of the type \<open>error\<close>; a method that can raise and that can call \<open>self.log\<close>
  returns \<open>error + (value \<times> log lines)\<close>, where the log lines are the calls that
  reached the logging sink, in order. Collaborators that are not part of the file (the
  file system, the \<open>Parser\<close> class, the macro classes, \<open>utils\<close>) are parameters.
\<close>

subsection \<open>Python values, exceptions and the logging sink\<close>

text \<open>
  The \<open>logger\<close> keyword argument is untyped in the source: \<open>log\<close> tests its truth value
  and whether it is callable. \<open>PyCallable n\<close> stands for a function object (the sink
  number \<open>n\<close>); function objects are true.
\<close>

datatype pyval = PyNone | PyBool bool | PyInt int | PyStr string | PyCallable nat

fun truthy :: "pyval \<Rightarrow> bool" where
  "truthy PyNone = False"
| "truthy (PyBool b) = b"
| "truthy (PyInt i) = (i \<noteq> 0)"
| "truthy (PyStr s) = (s \<noteq> [])"
| "truthy (PyCallable n) = True"

fun callable :: "pyval \<Rightarrow> bool" where
  "callable (PyCallable n) = True"
| "callable v = False"

datatype error =
    IOError string
  | ValueError string
  | TypeError string
  | RuntimeError string
  | IndexError string
  | UnboundLocalError string
  | NoSectionError string
  | NoOptionError string

type_synonym log_line = "string \<times> string"

type_synonym 'a result = "error + ('a \<times> log_line list)"

text \<open>Sequencing: the first exception ends the computation, log lines accumulate.\<close>

definition and_then :: "'a result \<Rightarrow> ('a \<Rightarrow> 'b result) \<Rightarrow> 'b result" where
  "and_then m f =
     (case m of
        Inl e \<Rightarrow> Inl e
      | Inr (a, l1) \<Rightarrow>
          (case f a of Inl e \<Rightarrow> Inl e | Inr (b, l2) \<Rightarrow> Inr (b, l1 @ l2)))"

text \<open>The same with the second computation already written out (no function argument).\<close>

definition followed_by :: "unit result \<Rightarrow> 'b result \<Rightarrow> 'b result" where
  "followed_by m r =
     (case m of
        Inl e \<Rightarrow> Inl e
      | Inr (u, l1) \<Rightarrow> (case r of Inl e \<Rightarrow> Inl e | Inr (b, l2) \<Rightarrow> Inr (b, l1 @ l2)))"

definition outcome :: "'a result \<Rightarrow> error + 'a" where
  "outcome r = (case r of Inl e \<Rightarrow> Inl e | Inr (a, l) \<Rightarrow> Inr a)"

subsection \<open>Macros (module macro, a parameter)\<close>

text \<open>
  A macro class is what \<open>process_macros\<close> uses of it: the text \<open>%s\<close> prints for an
  instance, what the constructor does when called with \<open>logger\<close> and \<open>embed\<close> (\<open>Some e\<close>:
  it raises \<open>e\<close>), and what \<open>process(content, source)\<close> of an instance does.
\<close>

datatype macro_outcome = Returns string "string list" | Raises string

record macro_class =
  macro_str :: string
  macro_new :: "pyval \<Rightarrow> bool \<Rightarrow> string option"
  macro_process :: "pyval \<Rightarrow> bool \<Rightarrow> string \<Rightarrow> string option \<Rightarrow> macro_outcome"

datatype registrable = MacroClass macro_class | NotAMacro

subsection \<open>Slide records, TOC entries, the generator\<close>

record slide =
  sl_header :: "string option"
  sl_title :: "string option"
  sl_level :: "nat option"
  sl_content :: "string option"
  sl_classes :: "string list"
  sl_source :: "(string \<times> string) option"
  sl_number :: "nat option"

text \<open>An entry of \<open>self.__toc\<close>: the dict \<open>{'title', 'number', 'level'}\<close>.\<close>

record toc_entry =
  entry_title :: "string option"
  entry_number :: nat
  entry_level :: int

text \<open>
  The instance attributes set by \<open>__init__\<close>. \<open>self.source\<close> is the path given, or
  the list of paths of a configuration file.
\<close>

datatype source_attr = SourcePath string | SourceList "string list"

record generator =
  g_debug :: bool
  g_destination_file :: pyval
  g_direct :: pyval
  g_embed :: bool
  g_encoding :: string
  g_extensions :: "string option"
  g_logger :: pyval
  g_theme :: string
  g_verbose :: bool
  g_num_slides :: nat
  g_toc :: "toc_entry list"
  g_macros :: "macro_class list"
  g_source_base_dir :: string
  g_source :: source_attr
  g_file_type :: string
  g_theme_dir :: string
  g_template_file :: string

definition TOC_MAX_LEVEL :: nat where
  "TOC_MAX_LEVEL = 2"

subsection \<open>log\<close>

text \<open>
  \<^verbatim>\<open>
  def log(self, message, type='notice'):
      if self.logger and not callable(self.logger):
          raise ValueError(u"Invalid logger set, must be a callable")
      if self.verbose and self.logger:
          self.logger(message, type)
  \<close>
  A callable sink is taken to record its two arguments and return.
\<close>

definition log :: "generator \<Rightarrow> string \<Rightarrow> string \<Rightarrow> unit result" where
  "log self message severity =
     (if truthy (g_logger self) \<and> \<not> callable (g_logger self)
      then Inl (ValueError ''Invalid logger set, must be a callable'')
      else if g_verbose self \<and> truthy (g_logger self)
      then Inr ((), [(message, severity)])
      else Inr ((), []))"

subsection \<open>process_macros\<close>

definition str_opt :: "string option \<Rightarrow> string" where
  "str_opt s = (case s of None \<Rightarrow> ''None'' | Some t \<Rightarrow> t)"

text \<open>
  The \<open>except\<close> clause of \<open>process_macros\<close>. The local variable \<open>macro\<close> is unbound
  until a constructor has returned once.
\<close>

definition macro_failed ::
  "generator \<Rightarrow> string option \<Rightarrow> string option \<Rightarrow> string \<Rightarrow> unit result" where
  "macro_failed self source macro e =
     (case macro of
        None \<Rightarrow> Inl (UnboundLocalError ''macro'')
      | Some m \<Rightarrow>
          log self (m @ '' processing failed in '' @ str_opt source @ '': '' @ e) ''notice'')"

text \<open>
  \<^verbatim>\<open>
  for macro_class in self.macros:
      try:
          macro = macro_class(logger=self.logger, embed=self.embed)
          content, add_classes = macro.process(content, source)
          if add_classes:
              classes += add_classes
      except Exception, e:
          self.log(u"%s processing failed in %s: %s" % (macro, source, e))
  \<close>
  The loop state is \<open>(content, classes, macro)\<close>.
\<close>

fun macros_loop ::
  "generator \<Rightarrow> string option \<Rightarrow> macro_class list \<Rightarrow> string \<times> string list \<times> string option
     \<Rightarrow> (string \<times> string list) result" where
  "macros_loop self source [] (content, classes, macro) = Inr ((content, classes), [])"
| "macros_loop self source (macro_class # rest) (content, classes, macro) =
     (case macro_new macro_class (g_logger self) (g_embed self) of
        Some e \<Rightarrow>
          followed_by (macro_failed self source macro e)
            (macros_loop self source rest (content, classes, macro))
      | None \<Rightarrow>
          (case macro_process macro_class (g_logger self) (g_embed self) content source of
             Raises e \<Rightarrow>
               followed_by (macro_failed self source (Some (macro_str macro_class)) e)
                 (macros_loop self source rest
                    (content, classes, Some (macro_str macro_class)))
           | Returns content' add_classes \<Rightarrow>
               macros_loop self source rest
                 (content',
                  if add_classes \<noteq> [] then classes @ add_classes else classes,
                  Some (macro_str macro_class))))"

definition process_macros ::
  "generator \<Rightarrow> string \<Rightarrow> string option \<Rightarrow> (string \<times> string list) result" where
  "process_macros self content source = macros_loop self source (g_macros self) (content, [], None)"

subsection \<open>Text: whitespace, digits, paths\<close>

text \<open>
  Text is unicode in the source (\<open>codecs.open\<close>, the parser's output); a \<open>char\<close> is a
  code point below 256. \<open>is_space\<close> is what \<open>unicode.strip\<close> and \<open>\s\<close> under
  \<open>re.UNICODE\<close> take for whitespace there, \<open>is_digit\<close> what \<open>\d\<close> takes for a digit.
\<close>

definition is_space :: "char \<Rightarrow> bool" where
  "is_space c = (c \<in> set [CHR 0x09, CHR 0x0A, CHR 0x0B, CHR 0x0C, CHR 0x0D, CHR 0x1C,
                          CHR 0x1D, CHR 0x1E, CHR 0x1F, CHR 0x20, CHR 0x85, CHR 0xA0])"

definition is_digit :: "char \<Rightarrow> bool" where
  "is_digit c = (c \<in> set ''0123456789'')"

definition strip :: "string \<Rightarrow> string" where
  "strip s = rev (dropWhile is_space (rev (dropWhile is_space s)))"

definition digit_value :: "char \<Rightarrow> nat" where
  "digit_value c = length (takeWhile (\<lambda>d. d \<noteq> c) ''0123456789'')"

text \<open>\<open>int(s)\<close> for a string of digits.\<close>

definition int_of_digits :: "string \<Rightarrow> nat" where
  "int_of_digits s = foldl (\<lambda>n c. 10 * n + digit_value c) 0 s"

definition opt_truthy :: "string option \<Rightarrow> bool" where
  "opt_truthy v = (case v of None \<Rightarrow> False | Some s \<Rightarrow> s \<noteq> [])"

definition endswith :: "string \<Rightarrow> string \<Rightarrow> bool" where
  "endswith s suffix =
     (length suffix \<le> length s \<and> drop (length s - length suffix) s = suffix)"

text \<open>\<open>os.path.join(a, b)\<close> of posixpath, for two components.\<close>

definition path_join :: "string \<Rightarrow> string \<Rightarrow> string" where
  "path_join a b =
     (if b \<noteq> [] \<and> hd b = CHR ''/'' then b
      else if a = [] \<or> last a = CHR ''/'' then a @ b
      else a @ ''/'' @ b)"

text \<open>
  \<open>os.path.splitext(p)[1]\<close>: the text from the last dot of the last path component,
  unless only dots stand before it in that component.
\<close>

definition splitext_ext :: "string \<Rightarrow> string" where
  "splitext_ext p =
     (let name = rev (takeWhile (\<lambda>c. c \<noteq> CHR ''/'') (rev p));
          after_dot = rev (takeWhile (\<lambda>c. c \<noteq> CHR ''.'') (rev name));
          stem = take (length name - length after_dot - 1) name
      in if CHR ''.'' \<in> set name \<and> (\<exists>c\<in>set stem. c \<noteq> CHR ''.'')
         then CHR ''.'' # after_dot else [])"

subsection \<open>The heading pattern of get_slide_vars\<close>

text \<open>
  \<^verbatim>\<open>re.search(r'(<h(\d+?).*?>(.+?)</h\d>)\s?(.+)?', slide_src, re.DOTALL | re.UNICODE)\<close>

  The matcher below follows the backtracking order of \<open>re\<close>: \<open>search\<close> tries the start
  positions from the left; at one position a lazy quantifier takes the fewest
  characters first and one more each time the rest of the pattern fails. With
  \<open>re.DOTALL\<close> the dot matches every character.
\<close>

text \<open>\<open></h\d>\<close> at the start of the text: the tag and what follows it.\<close>

fun closing_tag :: "string \<Rightarrow> (string \<times> string) option" where
  "closing_tag (a # b # c # d # e # rest) =
     (if [a, b, c] = ''</h'' \<and> is_digit d \<and> e = CHR ''>''
      then Some ([a, b, c, d, e], rest) else None)"
| "closing_tag s = None"

text \<open>\<open>(.+?)</h\d>\<close>: group 3 takes one character, then as few more as possible.\<close>

fun title_lazy :: "string \<Rightarrow> string \<Rightarrow> (string \<times> string \<times> string) option" where
  "title_lazy title [] = None"
| "title_lazy title (c # s) =
     (case closing_tag s of
        Some (tag, rest) \<Rightarrow> Some (title @ [c], tag, rest)
      | None \<Rightarrow> title_lazy (title @ [c]) s)"

text \<open>\<open>.*?>\<close> and the rest: as few characters as possible before a \<open>>\<close> after which
  the title and the closing tag match.\<close>

fun attrs_lazy :: "string \<Rightarrow> string \<Rightarrow> (string \<times> string \<times> string \<times> string) option" where
  "attrs_lazy attrs [] = None"
| "attrs_lazy attrs (c # s) =
     (case (if c = CHR ''>'' then title_lazy [] s else None) of
        Some (title, tag, rest) \<Rightarrow> Some (attrs, title, tag, rest)
      | None \<Rightarrow> attrs_lazy (attrs @ [c]) s)"

text \<open>\<open>(\d+?)\<close> and the rest: one digit, then as few more as possible.\<close>

fun digits_lazy ::
  "string \<Rightarrow> string \<Rightarrow> (string \<times> string \<times> string \<times> string \<times> string) option" where
  "digits_lazy digits [] = None"
| "digits_lazy digits (c # s) =
     (if is_digit c
      then (case attrs_lazy [] s of
              Some (attrs, title, tag, rest) \<Rightarrow> Some (digits @ [c], attrs, title, tag, rest)
            | None \<Rightarrow> digits_lazy (digits @ [c]) s)
      else None)"

text \<open>
  \<open>\s?(.+)?\<close> on the text after the heading: both are greedy and optional, so one
  whitespace character is taken when there is one, and group 4 is all the text left,
  or unset when none is left.
\<close>

definition body_group :: "string \<Rightarrow> string option" where
  "body_group rest =
     (let r = (case rest of [] \<Rightarrow> [] | c # r' \<Rightarrow> if is_space c then r' else rest)
      in if r = [] then None else Some r)"

record heading_match =
  group1 :: string
  group2 :: string
  group3 :: string
  group4 :: "string option"

text \<open>The pattern matched with its first character at the start of the text.\<close>

definition heading_at :: "string \<Rightarrow> heading_match option" where
  "heading_at s =
     (case s of
        a # b # s' \<Rightarrow>
          (if [a, b] = ''<h''
           then (case digits_lazy [] s' of
                   Some (digits, attrs, title, tag, rest) \<Rightarrow>
                     Some \<lparr>group1 = ''<h'' @ digits @ attrs @ ''>'' @ title @ tag,
                           group2 = digits, group3 = title, group4 = body_group rest\<rparr>
                 | None \<Rightarrow> None)
           else None)
      | _ \<Rightarrow> None)"

text \<open>\<open>re.search\<close>: the text before the match, and the match.\<close>

fun re_search :: "string \<Rightarrow> string \<Rightarrow> (string \<times> heading_match) option" where
  "re_search skipped [] = None"
| "re_search skipped (c # s) =
     (case heading_at (c # s) of
        Some found \<Rightarrow> Some (skipped, found)
      | None \<Rightarrow> re_search (skipped @ [c]) s)"

subsection \<open>Collaborators outside generator.py\<close>

text \<open>
  What the methods use of \<open>os\<close>, \<open>codecs\<close>, \<open>utils\<close>, \<open>ConfigParser\<close> and the module
  \<open>parser\<close>. \<open>new_parser ext encoding extensions\<close> is \<open>Parser(ext, encoding,
  extensions)\<close>: \<open>None\<close> when it raises \<open>NotImplementedError\<close>, else the parser's
  \<open>format\<close> and its \<open>parse\<close> method. \<open>read_config path\<close> is the \<open>[landslide]\<close>
  section of the file read by \<open>RawConfigParser\<close>: \<open>Inl\<close> when reading raises,
  \<open>Inr None\<close> when the section is missing.
\<close>

record os_env =
  os_path_exists :: "string \<Rightarrow> bool"
  os_path_isfile :: "string \<Rightarrow> bool"
  os_path_abspath :: "string \<Rightarrow> string"
  os_path_split_head :: "string \<Rightarrow> string"
  open_read :: "string \<Rightarrow> string"
  get_abs_path_url :: "string \<Rightarrow> string"
  read_config :: "string \<Rightarrow> string + (string \<rightharpoonup> string) option"
  new_parser :: "string \<Rightarrow> string \<Rightarrow> string option \<Rightarrow> (string \<times> (string \<Rightarrow> string)) option"
  THEMES_DIR :: string

subsection \<open>get_slide_vars\<close>

text \<open>
  \<^verbatim>\<open>
  find = re.search(...)
  if not find:
      header = level = title = None
      content = slide_src.strip()
  else:
      header = find.group(1)
      level = int(find.group(2))
      title = find.group(3)
      content = find.group(4).strip() if find.group(4) else find.group(4)
  slide_classes = []
  if content:
      content, slide_classes = self.process_macros(content, source)
  source_dict = {}
  if source:
      source_dict = {'rel_path': source, 'abs_path': os.path.abspath(source)}
  if header or content:
      return {'header': header, 'title': title, 'level': level, 'content': content,
              'classes': slide_classes, 'source': source_dict}
  \<close>
  The function returns \<open>None\<close> (no record) when the last test fails. The key \<open>number\<close>
  is not set here. The match object \<open>find\<close> is written \<open>found\<close>.
\<close>

definition get_slide_vars ::
  "os_env \<Rightarrow> generator \<Rightarrow> string \<Rightarrow> string option \<Rightarrow> slide option result" where
  "get_slide_vars env self slide_src source =
     (let (header, level, title, content) =
            (case re_search [] slide_src of
               None \<Rightarrow> (None, None, None, Some (strip slide_src))
             | Some (skipped, found) \<Rightarrow>
                 (Some (group1 found), Some (int_of_digits (group2 found)),
                  Some (group3 found),
                  if opt_truthy (group4 found) then map_option strip (group4 found)
                  else group4 found))
      in and_then
           (if opt_truthy content
            then and_then (process_macros self (the content) source)
                   (\<lambda>(content', classes). Inr ((Some content', classes), []))
            else Inr ((content, []), []))
           (\<lambda>(content, slide_classes).
              let source_dict =
                    (if opt_truthy source
                     then Some (the source, os_path_abspath env (the source)) else None)
              in Inr (if opt_truthy header \<or> opt_truthy content
                      then Some \<lparr>sl_header = header, sl_title = title,
                                  sl_level = level, sl_content = content,
                                  sl_classes = slide_classes, sl_source = source_dict,
                                  sl_number = None\<rparr>
                      else None, [])))"

subsection \<open>The slide boundary pattern of fetch_contents\<close>

text \<open>
  \<^verbatim>\<open>re.split(r'<hr.+>', parser.parse(file_contents))\<close>

  Without \<open>re.DOTALL\<close> the dot matches every character but the newline, and \<open>.+\<close> is
  greedy: it takes the whole run of characters up to the newline first and gives back
  one at a time until a \<open>>\<close> follows. \<open>hr_backtrack n body\<close> has \<open>.+\<close> take \<open>n\<close>
  characters of the text after \<open><hr\<close>; the result is the text after the match.
\<close>

fun hr_backtrack :: "nat \<Rightarrow> string \<Rightarrow> string option" where
  "hr_backtrack 0 body = None"
| "hr_backtrack (Suc n) body =
     (if Suc n < length body \<and> body ! Suc n = CHR ''>''
      then Some (drop (Suc (Suc n)) body)
      else hr_backtrack n body)"

definition hr_at :: "string \<Rightarrow> string option" where
  "hr_at s =
     (if take 3 s = ''<hr''
      then hr_backtrack (length (takeWhile (\<lambda>c. c \<noteq> CHR 0x0A) (drop 3 s))) (drop 3 s)
      else None)"

lemma hr_backtrack_shorter: "hr_backtrack n body = Some rest \<Longrightarrow> length rest < length body"
  by (induction n) (auto split: if_splits)

lemma hr_at_shorter: "hr_at s = Some rest \<Longrightarrow> length rest < length s"
  by (auto simp: hr_at_def split: if_splits dest!: hr_backtrack_shorter)

text \<open>
  \<open>re.split\<close>: the pieces between the matches, found from the left. \<open>piece\<close> is the
  text passed since the last match.
\<close>

function split_hr :: "string \<Rightarrow> string \<Rightarrow> string list" where
  "split_hr piece [] = [piece]"
| "split_hr piece (c # s) =
     (case hr_at (c # s) of
        Some rest \<Rightarrow> piece # split_hr [] rest
      | None \<Rightarrow> split_hr (piece @ [c]) s)"
  by pat_completeness auto
termination
  by (relation "measure (\<lambda>(piece, s). length s)") (auto dest: hr_at_shorter)

subsection \<open>Sources and the file system\<close>

text \<open>
  A path is modelled together with what the file system holds there: a file (what
  \<open>codecs.open(source, encoding=...).read()\<close> gives for an encoding) or a directory
  (\<open>os.listdir\<close>: the entry names in the file system's own order, each with what it
  holds). The argument of \<open>fetch_contents\<close> is a path or a list of sources.
\<close>

datatype read_result = ReadOk string | UnicodeDecodeError | ReadIOError string

datatype fsnode = File "string \<Rightarrow> read_result" | Dir "(string \<times> fsnode) list"

datatype source = Path string fsnode | Sources "source list"

fun join_with :: "string \<Rightarrow> string list \<Rightarrow> string" where
  "join_with sep [] = []"
| "join_with sep [x] = x"
| "join_with sep (x # y # ys) = x @ sep @ join_with sep (y # ys)"

text \<open>What \<open>%s\<close> prints for the argument (for a list its \<open>repr\<close>; escapes are not modelled).\<close>

fun source_repr :: "source \<Rightarrow> string" where
  "source_repr (Path p node) = [CHR 0x27] @ p @ [CHR 0x27]"
| "source_repr (Sources entries) = ''['' @ join_with '', '' (map source_repr entries) @ '']''"

definition source_str :: "source \<Rightarrow> string" where
  "source_str src = (case src of Path p node \<Rightarrow> p | Sources entries \<Rightarrow> source_repr src)"

fun source_size :: "source \<Rightarrow> nat" where
  "source_size (Path p node) = size node"
| "source_size (Sources entries) = Suc (sum_list (map source_size entries))"

subsection \<open>fetch_contents\<close>

text \<open>\<open>for entry in entries: slides.extend(f(entry))\<close>\<close>

fun extend_each :: "('a \<Rightarrow> slide option list result) \<Rightarrow> 'a list \<Rightarrow> slide option list result" where
  "extend_each f [] = Inr ([], [])"
| "extend_each f (entry # entries) =
     (case f entry of
        Inl e \<Rightarrow> Inl e
      | Inr (slides, l1) \<Rightarrow>
          (case extend_each f entries of
             Inl e \<Rightarrow> Inl e
           | Inr (others, l2) \<Rightarrow> Inr (slides @ others, l1 @ l2)))"

lemma extend_each_pointwise:
  "(\<And>x. x \<in> set xs \<Longrightarrow> f x = g x) \<Longrightarrow> extend_each f xs = extend_each g xs"
proof (induction xs)
  case Nil
  show ?case by simp
next
  case (Cons a xs)
  have "f a = g a" and "extend_each f xs = extend_each g xs"
    using Cons by simp_all
  then show ?case by (simp split: sum.splits)
qed

lemma extend_each_cong [fundef_cong]:
  "xs = ys \<Longrightarrow> (\<And>x. x \<in> set ys \<Longrightarrow> f x = g x) \<Longrightarrow> extend_each f xs = extend_each g ys"
  using extend_each_pointwise [of ys f g] by simp

text \<open>The end of the method: \<open>if not slides: self.log(u"Exiting  %s: no contents found" % source, 'notice')\<close>\<close>

definition exiting :: "generator \<Rightarrow> string \<Rightarrow> slide option list result \<Rightarrow> slide option list result" where
  "exiting self source_text r =
     and_then r
       (\<lambda>slides.
          if slides = []
          then followed_by
                 (log self (''Exiting  '' @ source_text @ '': no contents found'') ''notice'')
                 (Inr (slides, []))
          else Inr (slides, []))"

text \<open>
  \<^verbatim>\<open>
  slides = []
  if type(source) is list:
      for entry in source:
          slides.extend(self.fetch_contents(entry))
  elif os.path.isdir(source):
      self.log(u"Entering %s" % source)
      entries = os.listdir(source)
      entries.sort()
      for entry in entries:
          slides.extend(self.fetch_contents(os.path.join(source, entry)))
  else:
      try:
          parser = Parser(os.path.splitext(source)[1], self.encoding, self.extensions)
      except NotImplementedError:
          return slides
      self.log(u"Adding   %s (%s)" % (source, parser.format))
      try:
          file = codecs.open(source, encoding=self.encoding)
          file_contents = file.read()
      except UnicodeDecodeError:
          self.log(u"Unable to decode source %s: skipping" % source, 'warning')
      else:
          inner_slides = re.split(r'<hr.+>', parser.parse(file_contents))
          for inner_slide in inner_slides:
              slides.append(self.get_slide_vars(inner_slide, source))
  if not slides:
      self.log(u"Exiting  %s: no contents found" % source, 'notice')
  return slides
  \<close>
  \<open>entries.sort()\<close> orders the names as strings (by character code); \<open>sort_key fst\<close>
  is that order on the names, each name keeping what it holds.
\<close>

function fetch_contents :: "os_env \<Rightarrow> generator \<Rightarrow> source \<Rightarrow> slide option list result" where
  "fetch_contents env self (Sources entries) =
     exiting self (source_str (Sources entries))
       (extend_each (\<lambda>entry. fetch_contents env self entry) entries)"
| "fetch_contents env self (Path source (Dir listing)) =
     exiting self source
       (followed_by (log self (''Entering '' @ source) ''notice'')
          (extend_each
             (\<lambda>(entry, node). fetch_contents env self (Path (path_join source entry) node))
             (sort_key fst listing)))"
| "fetch_contents env self (Path source (File contents)) =
     (case new_parser env (splitext_ext source) (g_encoding self) (g_extensions self) of
        None \<Rightarrow> Inr ([], [])
      | Some (format, parse) \<Rightarrow>
          exiting self source
            (followed_by (log self (''Adding   '' @ source @ '' ('' @ format @ '')'') ''notice'')
               (case contents (g_encoding self) of
                  ReadIOError m \<Rightarrow> Inl (IOError m)
                | UnicodeDecodeError \<Rightarrow>
                    followed_by
                      (log self (''Unable to decode source '' @ source @ '': skipping'')
                         ''warning'')
                      (Inr ([], []))
                | ReadOk file_contents \<Rightarrow>
                    extend_each
                      (\<lambda>inner_slide.
                         and_then (get_slide_vars env self inner_slide (Some source))
                           (\<lambda>slide_vars. Inr ([slide_vars], [])))
                      (split_hr [] (parse file_contents)))))"
  by pat_completeness auto
termination
proof (relation "measure (\<lambda>(env, self, src). source_size src)")
  show "wf (measure (\<lambda>(env, self, src). source_size src))"
    by simp
next
  fix env :: os_env and self :: generator and entries :: "source list" and entry :: source
  assume "entry \<in> set entries"
  then have "source_size entry \<le> sum_list (map source_size entries)"
    by (simp add: member_le_sum_list)
  then show "((env, self, entry), (env, self, Sources entries))
               \<in> measure (\<lambda>(env, self, src). source_size src)"
    by simp
next
  fix env :: os_env and self :: generator and source :: string
    and listing :: "(string \<times> fsnode) list" and x :: "string \<times> fsnode"
    and entry :: string and node :: fsnode
  assume "x \<in> set (sort_key fst listing)" and "(entry, node) = x"
  then have "(entry, node) \<in> set listing"
    by simp
  then have "size node < Suc (size_list (size_prod (\<lambda>x. 0) size) listing)"
    by (induction listing) auto
  then show "((env, self, Path (path_join source entry) node), (env, self, Path source (Dir listing)))
               \<in> measure (\<lambda>(env, self, src). source_size src)"
    by simp
qed

subsection \<open>The table of contents\<close>

text \<open>\<open>self.__toc.append({'title': title, 'number': slide_number, 'level': level})\<close>\<close>

definition add_toc_entry :: "generator \<Rightarrow> string option \<Rightarrow> int \<Rightarrow> nat \<Rightarrow> generator" where
  "add_toc_entry self title level slide_number =
     self\<lparr>g_toc := g_toc self @
       [\<lparr>entry_title = title, entry_number = slide_number, entry_level = level\<rparr>]\<rparr>"

text \<open>
  \<^verbatim>\<open>
  toc = []
  stack = [toc]
  for entry in self.__toc:
      entry['sub'] = []
      while entry['level'] < len(stack):
          stack.pop()
      while entry['level'] > len(stack):
          stack.append(stack[-1][-1]['sub'])
      stack[-1].append(entry)
  return toc
  \<close>
  The lists \<open>toc\<close> and \<open>entry['sub']\<close> are shared objects: the stack holds references
  to them and \<open>append\<close> changes them in place. The model keeps them in a store, a list
  of list objects addressed by position; a stored entry holds the address of its
  \<open>sub\<close> list, and the stack is a list of addresses with its top at the end. Every
  address in use was allocated before (it is below the length of the store).
\<close>

datatype toc_cell =
  TocCell (cell_title: "string option") (cell_number: nat) (cell_level: int) (cell_sub: nat)

function pop_loop :: "int \<Rightarrow> nat list \<Rightarrow> error + nat list" where
  "pop_loop level stack =
     (if level < int (length stack)
      then (if stack = [] then Inl (IndexError ''pop from empty list'')
            else pop_loop level (butlast stack))
      else Inr stack)"
  by pat_completeness auto
termination
  by (relation "measure (\<lambda>(level, stack). length stack)") auto

function push_loop :: "toc_cell list list \<Rightarrow> int \<Rightarrow> nat list \<Rightarrow> error + nat list" where
  "push_loop store level stack =
     (if level > int (length stack)
      then (if stack = [] then Inl (IndexError ''list index out of range'')
            else if store ! last stack = [] then Inl (IndexError ''list index out of range'')
            else push_loop store level (stack @ [cell_sub (last (store ! last stack))]))
      else Inr stack)"
  by pat_completeness auto
termination
  by (relation "measure (\<lambda>(store, level, stack). nat (level - int (length stack)))") auto

fun toc_loop :: "toc_entry list \<Rightarrow> toc_cell list list \<times> nat list \<Rightarrow> error + toc_cell list list" where
  "toc_loop [] (store, stack) = Inr store"
| "toc_loop (entry # rest) (store, stack) =
     (let sub = length store;
          store1 = store @ [[]]
      in case pop_loop (entry_level entry) stack of
           Inl e \<Rightarrow> Inl e
         | Inr stack1 \<Rightarrow>
             (case push_loop store1 (entry_level entry) stack1 of
                Inl e \<Rightarrow> Inl e
              | Inr stack2 \<Rightarrow>
                  if stack2 = [] then Inl (IndexError ''list index out of range'')
                  else toc_loop rest
                         (store1[last stack2 := store1 ! last stack2 @
                            [TocCell (entry_title entry) (entry_number entry)
                               (entry_level entry) sub]],
                          stack2)))"

text \<open>
  The value returned: the list \<open>toc\<close> with every \<open>sub\<close> reference followed. The first
  argument bounds the depth read; the number of list objects is enough, since every
  \<open>sub\<close> list is a list object of its own.
\<close>

datatype toc_tree =
  TocNode (node_title: "string option") (node_number: nat) (node_level: int)
    (node_sub: "toc_tree list")

fun read_toc :: "nat \<Rightarrow> toc_cell list list \<Rightarrow> nat \<Rightarrow> toc_tree list" where
  "read_toc 0 store a = []"
| "read_toc (Suc depth) store a =
     map (\<lambda>c. TocNode (cell_title c) (cell_number c) (cell_level c)
                 (read_toc depth store (cell_sub c)))
       (store ! a)"

definition get_toc :: "generator \<Rightarrow> error + toc_tree list" where
  "get_toc self =
     (case toc_loop (g_toc self) ([[]], [0]) of
        Inl e \<Rightarrow> Inl e
      | Inr store \<Rightarrow> Inr (read_toc (length store) store 0))"

subsection \<open>Class attributes, user css and js\<close>

text \<open>
  \<open>user_css = []\<close> and \<open>user_js = []\<close> stand in the class body: the two lists belong
  to the class, and \<open>self.user_css.append\<close> changes the class's list. They are kept
  apart from the instance attributes. An element of the lists is a dict with
  \<open>path_url\<close> and \<open>contents\<close>; the test \<open>css_path in self.user_css\<close> compares the
  string with the elements, and a string never equals a dict.
\<close>

datatype pyobj = Str string | AssetDict (path_url: string) (asset_contents: string)

record class_attrs =
  default_macros :: "registrable list"
  user_css :: "pyobj list"
  user_js :: "pyobj list"

text \<open>
  \<^verbatim>\<open>
  for css_path in css_list:
      if css_path and not css_path in self.user_css:
          if not os.path.exists(css_path):
              raise IOError('%s user css file not found' % (css_path,))
          self.user_css.append({
              'path_url': utils.get_abs_path_url(css_path),
              'contents': open(css_path).read(),
          })
  \<close>
\<close>

fun add_user_css :: "os_env \<Rightarrow> string list \<Rightarrow> class_attrs \<Rightarrow> error + class_attrs" where
  "add_user_css env [] cls = Inr cls"
| "add_user_css env (css_path # css_list) cls =
     (if css_path \<noteq> [] \<and> Str css_path \<notin> set (user_css cls)
      then (if \<not> os_path_exists env css_path
            then Inl (IOError (css_path @ '' user css file not found''))
            else add_user_css env css_list
                   (cls\<lparr>user_css := user_css cls @
                      [AssetDict (get_abs_path_url env css_path) (open_read env css_path)]\<rparr>))
      else add_user_css env css_list cls)"

fun add_user_js :: "os_env \<Rightarrow> string list \<Rightarrow> class_attrs \<Rightarrow> error + class_attrs" where
  "add_user_js env [] cls = Inr cls"
| "add_user_js env (js_path # js_list) cls =
     (if js_path \<noteq> [] \<and> Str js_path \<notin> set (user_js cls)
      then (if \<not> os_path_exists env js_path
            then Inl (IOError (js_path @ '' user js file not found''))
            else add_user_js env js_list
                   (cls\<lparr>user_js := user_js cls @
                      [AssetDict (get_abs_path_url env js_path) (open_read env js_path)]\<rparr>))
      else add_user_js env js_list cls)"

subsection \<open>get_css, get_js\<close>

definition get_css :: "os_env \<Rightarrow> generator \<Rightarrow> (pyobj \<times> pyobj option) result" where
  "get_css env self =
     (let theme_css = path_join (path_join (g_theme_dir self) ''css'') ''print.css'';
          default_css =
            path_join (path_join (path_join (THEMES_DIR env) ''default'') ''css'') ''print.css'';
          print_css = (if os_path_exists env theme_css then theme_css else default_css);
          screen_css = path_join (path_join (g_theme_dir self) ''css'') ''screen.css''
      in if \<not> os_path_exists env theme_css \<and> \<not> os_path_exists env default_css
         then Inl (IOError ''Cannot find css/print.css in default theme'')
         else if os_path_exists env screen_css
         then Inr ((AssetDict (get_abs_path_url env print_css) (open_read env print_css),
                    Some (AssetDict (get_abs_path_url env screen_css)
                            (open_read env screen_css))), [])
         else followed_by
                (log self ''No screen stylesheet provided in current theme'' ''warning'')
                (Inr ((AssetDict (get_abs_path_url env print_css) (open_read env print_css),
                       None), [])))"

definition get_js :: "os_env \<Rightarrow> generator \<Rightarrow> error + pyobj" where
  "get_js env self =
     (let theme_js = path_join (path_join (g_theme_dir self) ''js'') ''slides.js'';
          default_js =
            path_join (path_join (path_join (THEMES_DIR env) ''default'') ''js'') ''slides.js'';
          js_file = (if os_path_exists env theme_js then theme_js else default_js)
      in if \<not> os_path_exists env theme_js \<and> \<not> os_path_exists env default_js
         then Inl (IOError ''Cannot find slides.js in default theme'')
         else Inr (AssetDict (get_abs_path_url env js_file) (open_read env js_file)))"

subsection \<open>get_template_vars\<close>

text \<open>
  \<^verbatim>\<open>
  try:
      head_title = slides[0]['title']
  except (IndexError, TypeError):
      head_title = "Untitled Presentation"
  \<close>
  \<open>slides[0]\<close> raises \<open>IndexError\<close> on the empty list, and \<open>None['title']\<close> raises
  \<open>TypeError\<close>.
\<close>

definition head_title_of :: "slide option list \<Rightarrow> string option" where
  "head_title_of slides =
     (case slides of
        [] \<Rightarrow> Some ''Untitled Presentation''
      | None # others \<Rightarrow> Some ''Untitled Presentation''
      | Some slide_vars # others \<Rightarrow> sl_title slide_vars)"

text \<open>
  \<^verbatim>\<open>
  for slide_index, slide_vars in enumerate(slides):
      if not slide_vars:
          continue
      self.num_slides += 1
      slide_number = slide_vars['number'] = self.num_slides
      if slide_vars['level'] and slide_vars['level'] <= TOC_MAX_LEVEL:
          self.add_toc_entry(slide_vars['title'], slide_vars['level'], slide_number)
  \<close>
  The loop returns the generator (its counter and TOC log) and the list with the
  numbers set.
\<close>

fun numbering_loop :: "generator \<Rightarrow> slide option list \<Rightarrow> generator \<times> slide option list" where
  "numbering_loop self [] = (self, [])"
| "numbering_loop self (None # rest) =
     (case numbering_loop self rest of (self', rest') \<Rightarrow> (self', None # rest'))"
| "numbering_loop self (Some slide_vars # rest) =
     (let self1 = self\<lparr>g_num_slides := g_num_slides self + 1\<rparr>;
          slide_number = g_num_slides self1;
          self2 =
            (case sl_level slide_vars of
               None \<Rightarrow> self1
             | Some level \<Rightarrow>
                 if level \<noteq> 0 \<and> level \<le> TOC_MAX_LEVEL
                 then add_toc_entry self1 (sl_title slide_vars) (int level) slide_number
                 else self1)
      in case numbering_loop self2 rest of
           (self', rest') \<Rightarrow> (self', Some (slide_vars\<lparr>sl_number := Some slide_number\<rparr>) # rest'))"

text \<open>\<open>str(n)\<close> for a number that is not negative.\<close>

function str_nat :: "nat \<Rightarrow> string" where
  "str_nat n =
     (if n < 10 then [''0123456789'' ! n]
      else str_nat (n div 10) @ [''0123456789'' ! (n mod 10)])"
  by pat_completeness auto
termination
  by (relation "measure (\<lambda>n. n)") auto

record template_vars =
  tv_head_title :: "string option"
  tv_num_slides :: string
  tv_slides :: "slide option list"
  tv_toc :: "toc_tree list"
  tv_embed :: bool
  tv_css :: "pyobj \<times> pyobj option"
  tv_js :: pyobj
  tv_user_css :: "pyobj list"
  tv_user_js :: "pyobj list"

text \<open>
  \<^verbatim>\<open>
  return {'head_title': head_title, 'num_slides': str(self.num_slides),
          'slides': slides, 'toc': self.toc, 'embed': self.embed,
          'css': self.get_css(), 'js': self.get_js(),
          'user_css': self.user_css, 'user_js': self.user_js}
  \<close>
  The result is the dict and the generator after the numbering.
\<close>

definition get_template_vars ::
  "os_env \<Rightarrow> class_attrs \<Rightarrow> generator \<Rightarrow> slide option list \<Rightarrow> (template_vars \<times> generator) result" where
  "get_template_vars env cls self slides =
     (let head_title = head_title_of slides in
      case numbering_loop self slides of
        (self', slides') \<Rightarrow>
          (case get_toc self' of
             Inl e \<Rightarrow> Inl e
           | Inr toc \<Rightarrow>
               and_then (get_css env self')
                 (\<lambda>css. case get_js env self' of
                          Inl e \<Rightarrow> Inl e
                        | Inr js \<Rightarrow>
                            Inr ((\<lparr>tv_head_title = head_title,
                                   tv_num_slides = str_nat (g_num_slides self'),
                                   tv_slides = slides', tv_toc = toc,
                                   tv_embed = g_embed self', tv_css = css, tv_js = js,
                                   tv_user_css = user_css cls, tv_user_js = user_js cls\<rparr>,
                                  self'), []))))"

subsection \<open>register_macro, parse_config, theme lookup\<close>

text \<open>
  \<^verbatim>\<open>
  for m in macros:
      if (inspect.isclass(m) and issubclass(m, macro_module.Macro)):
          self.macros.append(m)
      else:
          raise TypeError("Coundn't register macro; a macro must inherit from macro.Macro")
  \<close>
\<close>

fun register_macro :: "generator \<Rightarrow> registrable list \<Rightarrow> error + generator" where
  "register_macro self [] = Inr self"
| "register_macro self (MacroClass m # macros) =
     register_macro (self\<lparr>g_macros := g_macros self @ [m]\<rparr>) macros"
| "register_macro self (NotAMacro # macros) =
     Inl (TypeError ''Coundn't register macro; a macro must inherit from macro.Macro'')"

text \<open>\<open>value.replace('\r', '').split('\n')\<close>\<close>

fun split_newline :: "string \<Rightarrow> string \<Rightarrow> string list" where
  "split_newline piece [] = [piece]"
| "split_newline piece (c # s) =
     (if c = CHR 0x0A then piece # split_newline [] s else split_newline (piece @ [c]) s)"

definition config_lines :: "string \<Rightarrow> string list" where
  "config_lines v = split_newline [] (filter (\<lambda>c. c \<noteq> CHR 0x0D) v)"

text \<open>\<open>RawConfigParser.getboolean\<close> on the text of an option.\<close>

definition py_lower :: "string \<Rightarrow> string" where
  "py_lower v =
     map (\<lambda>c. case map_of (zip ''ABCDEFGHIJKLMNOPQRSTUVWXYZ'' ''abcdefghijklmnopqrstuvwxyz'') c of
                 None \<Rightarrow> c | Some l \<Rightarrow> l) v"

definition getboolean :: "string \<Rightarrow> error + bool" where
  "getboolean v =
     (if py_lower v \<in> set [''1'', ''yes'', ''true'', ''on''] then Inr True
      else if py_lower v \<in> set [''0'', ''no'', ''false'', ''off''] then Inr False
      else Inl (ValueError (''Not a boolean: '' @ v)))"

record config =
  cfg_source :: "string list"
  cfg_theme :: "string option"
  cfg_destination :: "string option"
  cfg_embed :: "bool option"
  cfg_css :: "string list option"
  cfg_js :: "string list option"

text \<open>
  \<^verbatim>\<open>
  self.log(u"Config   %s" % config_source)
  try:
      raw_config = ConfigParser.RawConfigParser()
      raw_config.read(config_source)
  except Exception, e:
      raise RuntimeError(u"Invalid configuration file: %s" % e)
  config = {}
  config['source'] = raw_config.get('landslide', 'source').replace('\r', '').split('\n')
  if raw_config.has_option('landslide', 'theme'):
      config['theme'] = raw_config.get('landslide', 'theme')
      self.log(u"Using    configured theme %s" % config['theme'])
  if raw_config.has_option('landslide', 'destination'):
      config['destination'] = raw_config.get('landslide', 'destination')
  if raw_config.has_option('landslide', 'embed'):
      config['embed'] = raw_config.getboolean('landslide', 'embed')
  if raw_config.has_option('landslide', 'css'):
      config['css'] = raw_config.get('landslide', 'css').replace('\r', '').split('\n')
  if raw_config.has_option('landslide', 'js'):
      config['js'] = raw_config.get('landslide', 'js').replace('\r', '').split('\n')
  return config
  \<close>
\<close>

definition parse_config :: "os_env \<Rightarrow> generator \<Rightarrow> string \<Rightarrow> config result" where
  "parse_config env self config_source =
     followed_by (log self (''Config   '' @ config_source) ''notice'')
       (case read_config env config_source of
          Inl e \<Rightarrow> Inl (RuntimeError (''Invalid configuration file: '' @ e))
        | Inr None \<Rightarrow> Inl (NoSectionError ''landslide'')
        | Inr (Some raw_config) \<Rightarrow>
            (case raw_config ''source'' of
               None \<Rightarrow> Inl (NoOptionError ''source'')
             | Some src \<Rightarrow>
                 followed_by
                   (case raw_config ''theme'' of
                      None \<Rightarrow> Inr ((), [])
                    | Some t \<Rightarrow> log self (''Using    configured theme '' @ t) ''notice'')
                   (case (case raw_config ''embed'' of
                            None \<Rightarrow> Inr None
                          | Some v \<Rightarrow> map_sum id Some (getboolean v)) of
                      Inl e \<Rightarrow> Inl e
                    | Inr embed_option \<Rightarrow>
                        Inr (\<lparr>cfg_source = config_lines src,
                              cfg_theme = raw_config ''theme'',
                              cfg_destination = raw_config ''destination'',
                              cfg_embed = embed_option,
                              cfg_css = map_option config_lines (raw_config ''css''),
                              cfg_js = map_option config_lines (raw_config ''js'')\<rparr>, []))))"

definition find_theme_dir :: "os_env \<Rightarrow> string \<Rightarrow> error + string" where
  "find_theme_dir env theme =
     (if os_path_exists env theme then Inr theme
      else if os_path_exists env (path_join (THEMES_DIR env) theme)
      then Inr (path_join (THEMES_DIR env) theme)
      else Inl (IOError (''Theme '' @ theme @ '' not found or invalid'')))"

definition get_template_file :: "os_env \<Rightarrow> generator \<Rightarrow> error + string" where
  "get_template_file env self =
     (let default_dir = path_join (THEMES_DIR env) ''default'' in
      if os_path_exists env (path_join (g_theme_dir self) ''base.html'')
      then Inr (path_join (g_theme_dir self) ''base.html'')
      else if \<not> os_path_exists env (path_join default_dir ''base.html'')
      then Inl (IOError ''Cannot find base.html in default theme'')
      else Inr (path_join default_dir ''base.html''))"

subsection \<open>The constructor\<close>

text \<open>The keyword arguments; \<open>None\<close> is a keyword that was not passed.\<close>

record kwargs =
  kw_debug :: "bool option"
  kw_direct :: "pyval option"
  kw_embed :: "bool option"
  kw_encoding :: "string option"
  kw_extensions :: "string option"
  kw_logger :: "pyval option"
  kw_theme :: "string option"
  kw_verbose :: "bool option"

definition get_or :: "'a option \<Rightarrow> 'a \<Rightarrow> 'a" where
  "get_or v d = (case v of None \<Rightarrow> d | Some x \<Rightarrow> x)"

text \<open>
  The first part of \<open>__init__\<close>, up to the test of the source (lines 68 to 85). The
  attribute \<open>destination_file\<close> is read from the keyword \<open>direct\<close>, as the source has it.
\<close>

definition init_attributes :: "kwargs \<Rightarrow> generator" where
  "init_attributes kw =
     \<lparr>g_debug = get_or (kw_debug kw) False,
      g_destination_file = get_or (kw_direct kw) (PyStr ''presentation.html''),
      g_direct = get_or (kw_direct kw) (PyBool False),
      g_embed = get_or (kw_embed kw) False,
      g_encoding = get_or (kw_encoding kw) ''utf8'',
      g_extensions = kw_extensions kw,
      g_logger = get_or (kw_logger kw) PyNone,
      g_theme = get_or (kw_theme kw) ''default'',
      g_verbose = get_or (kw_verbose kw) False,
      g_num_slides = 0,
      g_toc = [],
      g_macros = [],
      g_source_base_dir = [],
      g_source = SourcePath [],
      g_file_type = [],
      g_theme_dir = [],
      g_template_file = []\<rparr>"

text \<open>
  Lines 92 to 104:
  \<^verbatim>\<open>
  if source.endswith('.cfg'):
      config = self.parse_config(source)
      self.source = config.get('source')
      if not self.source:
          raise IOError('unable to fetch a valid source from config')
      self.theme = config.get('theme', 'default')
      self.destination_file = config.get('destination', self.DEFAULT_DESTINATION)
      self.embed = config.get('embed', False)
      self.add_user_css(config.get('css', []))
      self.add_user_js(config.get('js', []))
  else:
      self.source = source
  \<close>
\<close>

definition init_source ::
  "os_env \<Rightarrow> class_attrs \<Rightarrow> generator \<Rightarrow> string \<Rightarrow> (generator \<times> class_attrs) result" where
  "init_source env cls self source =
     (if endswith source ''.cfg''
      then and_then (parse_config env self source)
             (\<lambda>config.
                if cfg_source config = []
                then Inl (IOError ''unable to fetch a valid source from config'')
                else case add_user_css env (get_or (cfg_css config) []) cls of
                       Inl e \<Rightarrow> Inl e
                     | Inr cls1 \<Rightarrow>
                         (case add_user_js env (get_or (cfg_js config) []) cls1 of
                            Inl e \<Rightarrow> Inl e
                          | Inr cls2 \<Rightarrow>
                              Inr ((self\<lparr>g_source := SourceList (cfg_source config),
                                         g_theme := get_or (cfg_theme config) ''default'',
                                         g_destination_file :=
                                           PyStr (get_or (cfg_destination config)
                                                    ''presentation.html''),
                                         g_embed := get_or (cfg_embed config) False\<rparr>,
                                    cls2), [])))
      else Inr ((self\<lparr>g_source := SourcePath source\<rparr>, cls), []))"

text \<open>
  Lines 106 to 122: the destination, the file type, the theme and the template.
  \<open>os.path.exists\<close> of a value that is not a string raises \<open>TypeError\<close>.
\<close>

definition init_destination :: "os_env \<Rightarrow> generator \<Rightarrow> error + generator" where
  "init_destination env self =
     (case g_destination_file self of
        PyStr destination_file \<Rightarrow>
          if os_path_exists env destination_file \<and> \<not> os_path_isfile env destination_file
          then Inl (IOError (''Destination '' @ destination_file @ '' exists and is not a file''))
          else if \<not> endswith destination_file ''.html'' \<and> \<not> endswith destination_file ''.pdf''
          then Inl (IOError (''This program can only write html or pdf files. ''
                       @ ''Please use one of these file extensions in the destination''))
          else (let self1 = (if endswith destination_file ''.html''
                             then self\<lparr>g_file_type := ''html''\<rparr>
                             else self\<lparr>g_file_type := ''pdf'', g_embed := True\<rparr>)
                in case find_theme_dir env (g_theme self1) of
                     Inl e \<Rightarrow> Inl e
                   | Inr theme_dir \<Rightarrow>
                       (case get_template_file env (self1\<lparr>g_theme_dir := theme_dir\<rparr>) of
                          Inl e \<Rightarrow> Inl e
                        | Inr template_file \<Rightarrow>
                            Inr (self1\<lparr>g_theme_dir := theme_dir,
                                       g_template_file := template_file\<rparr>)))
      | other \<Rightarrow> Inl (TypeError ''coercing to Unicode: need string or buffer''))"

text \<open>
  \<open>__init__(self, source, **kwargs)\<close>: the new instance and the class attributes
  after it.
\<close>

definition Generator_init ::
  "os_env \<Rightarrow> class_attrs \<Rightarrow> string \<Rightarrow> kwargs \<Rightarrow> (generator \<times> class_attrs) result" where
  "Generator_init env cls source kw =
     (case register_macro (init_attributes kw) (default_macros cls) of
        Inl e \<Rightarrow> Inl e
      | Inr self1 \<Rightarrow>
          (let self2 = (if truthy (g_direct self1) then self1\<lparr>g_verbose := True\<rparr> else self1) in
           if source = [] \<or> \<not> os_path_exists env source
           then Inl (IOError (''Source file/directory '' @ source @ '' does not exist''))
           else and_then
                  (init_source env cls
                     (self2\<lparr>g_source_base_dir :=
                        os_path_split_head env (os_path_abspath env source)\<rparr>)
                     source)
                  (\<lambda>(self3, cls').
                     case init_destination env self3 of
                       Inl e \<Rightarrow> Inl e
                     | Inr self4 \<Rightarrow> Inr ((self4, cls'), []))))"

subsection \<open>Auxiliary definitions for the properties\<close>

text \<open>The generator after the body of the numbering loop ran for one present record.\<close>

definition after_slide :: "generator \<Rightarrow> slide \<Rightarrow> generator" where
  "after_slide self slide_vars =
     (let self1 = self\<lparr>g_num_slides := g_num_slides self + 1\<rparr> in
      case sl_level slide_vars of
        None \<Rightarrow> self1
      | Some level \<Rightarrow>
          if level \<noteq> 0 \<and> level \<le> TOC_MAX_LEVEL
          then add_toc_entry self1 (sl_title slide_vars) (int level) (g_num_slides self1)
          else self1)"

text \<open>
  The macro stage as the specification words it: the macros in registration order,
  each on the content the one before returned, the classes accumulated, and a macro
  that raises left out for this slide.
\<close>

fun apply_macros ::
  "generator \<Rightarrow> string option \<Rightarrow> macro_class list \<Rightarrow> string \<times> string list \<Rightarrow> string \<times> string list" where
  "apply_macros self source [] (content, classes) = (content, classes)"
| "apply_macros self source (m # ms) (content, classes) =
     (case macro_process m (g_logger self) (g_embed self) content source of
        Raises e \<Rightarrow> apply_macros self source ms (content, classes)
      | Returns content' add_classes \<Rightarrow>
          apply_macros self source ms (content', classes @ add_classes))"

text \<open>The lines \<open>process_macros\<close> hands to \<open>log\<close>, one for each macro that raises.\<close>

fun failure_lines ::
  "generator \<Rightarrow> string option \<Rightarrow> macro_class list \<Rightarrow> string \<Rightarrow> log_line list" where
  "failure_lines self source [] content = []"
| "failure_lines self source (m # ms) content =
     (case macro_process m (g_logger self) (g_embed self) content source of
        Raises e \<Rightarrow>
          (macro_str m @ '' processing failed in '' @ str_opt source @ '': '' @ e, ''notice'')
            # failure_lines self source ms content
      | Returns content' add_classes \<Rightarrow> failure_lines self source ms content')"

text \<open>A logger that \<open>log\<close> accepts: one that is false (\<open>None\<close> too) or callable.\<close>

definition logger_ok :: "generator \<Rightarrow> bool" where
  "logger_ok self = (if truthy (g_logger self) then callable (g_logger self) else True)"

subsection \<open>Example values\<close>

text \<open>
  A small world for the concrete instances below: a working directory \<open>/talk\<close> with
  \<open>slides.md\<close>, \<open>talk.cfg\<close> and \<open>a.css\<close>, the default theme under \<open>/themes\<close>, and a
  parser for \<open>.md\<close> whose \<open>parse\<close> returns the text as it is.
\<close>

definition example_env :: os_env where
  "example_env =
     \<lparr>os_path_exists = (\<lambda>p. p \<in> set [''slides.md'', ''talk.cfg'', ''deck'', ''a.css'',
          ''/themes/default'', ''/themes/default/base.html'',
          ''/themes/default/css/print.css'', ''/themes/default/js/slides.js'']),
      os_path_isfile = (\<lambda>p. p \<in> set [''slides.md'', ''talk.cfg'', ''a.css'']),
      os_path_abspath = (\<lambda>p. ''/talk/'' @ p),
      os_path_split_head = (\<lambda>p. ''/talk''),
      open_read = (\<lambda>p. ''contents of '' @ p),
      get_abs_path_url = (\<lambda>p. ''file:///talk/'' @ p),
      read_config = (\<lambda>p. Inr (Some [''source'' \<mapsto> ''slides.md''])),
      new_parser = (\<lambda>ext encoding extensions.
                      if ext = ''.md'' then Some (''markdown'', \<lambda>text. text) else None),
      THEMES_DIR = ''/themes''\<rparr>"

definition example_class :: class_attrs where
  "example_class = \<lparr>default_macros = [], user_css = [], user_js = []\<rparr>"

definition example_kwargs :: "pyval option \<Rightarrow> bool \<Rightarrow> kwargs" where
  "example_kwargs logger verbose =
     \<lparr>kw_debug = None, kw_direct = None, kw_embed = None, kw_encoding = None,
      kw_extensions = None, kw_logger = logger, kw_theme = None, kw_verbose = Some verbose\<rparr>"

definition example_generator :: "pyval \<Rightarrow> bool \<Rightarrow> macro_class list \<Rightarrow> generator" where
  "example_generator logger verbose macros =
     (init_attributes (example_kwargs (Some logger) verbose))
       \<lparr>g_macros := macros, g_source_base_dir := ''/talk'', g_source := SourcePath ''slides.md'',
        g_file_type := ''html'', g_theme_dir := ''/themes/default'',
        g_template_file := ''/themes/default/base.html''\<rparr>"

definition example_slide :: "string \<Rightarrow> nat \<Rightarrow> string \<Rightarrow> slide" where
  "example_slide title level content =
     \<lparr>sl_header = Some (''<h'' @ str_nat level @ ''>'' @ title @ ''</h'' @ str_nat level @ ''>''),
      sl_title = Some title, sl_level = Some level, sl_content = Some content,
      sl_classes = [], sl_source = Some (''slides.md'', ''/talk/slides.md''),
      sl_number = None\<rparr>"

text \<open>Three macro classes: one whose \<open>process\<close> always raises, one that marks the
  content and adds a class, and one whose constructor raises.\<close>

definition failing_macro :: macro_class where
  "failing_macro =
     \<lparr>macro_str = ''<FailingMacro>'', macro_new = (\<lambda>logger embed. None),
      macro_process = (\<lambda>logger embed content source. Raises ''boom'')\<rparr>"

definition fx_macro :: macro_class where
  "fx_macro =
     \<lparr>macro_str = ''<FxMacro>'', macro_new = (\<lambda>logger embed. None),
      macro_process = (\<lambda>logger embed content source. Returns (content @ ''!'') [''fx''])\<rparr>"

definition broken_macro :: macro_class where
  "broken_macro =
     \<lparr>macro_str = ''<BrokenMacro>'', macro_new = (\<lambda>logger embed. Some ''cannot start''),
      macro_process = (\<lambda>logger embed content source. Returns content [])\<rparr>"

text \<open>A macro class that leaves the content as it is and adds a class.\<close>

definition notes_macro :: macro_class where
  "notes_macro =
     \<lparr>macro_str = ''<NotesMacro>'', macro_new = (\<lambda>logger embed. None),
      macro_process = (\<lambda>logger embed content source. Returns content [''has_notes''])\<rparr>"



section \<open>Properties\<close>

lemma followed_by_simps:
  "followed_by (Inl e) r = Inl e"
  "followed_by (Inr (u, l1)) (Inl e) = Inl e"
  "followed_by (Inr (u, l1)) (Inr (b, l2)) = Inr (b, l1 @ l2)"
  by (simp_all add: followed_by_def)

lemma init_example:
  "Generator_init example_env example_class ''slides.md'' (example_kwargs (Some logger) verbose) =
     Inr ((example_generator logger verbose [], example_class), [])"
  by (simp add: Generator_init_def example_env_def example_class_def example_kwargs_def
        example_generator_def init_attributes_def get_or_def init_source_def endswith_def
        init_destination_def find_theme_dir_def get_template_file_def path_join_def and_then_def)

subsection \<open>The numbering pass\<close>

lemma numbering_loop_Some:
  "numbering_loop self (Some slide_vars # rest) =
     (fst (numbering_loop (after_slide self slide_vars) rest),
      Some (slide_vars\<lparr>sl_number := Some (Suc (g_num_slides self))\<rparr>)
        # snd (numbering_loop (after_slide self slide_vars) rest))"
  by (simp add: after_slide_def Let_def split: prod.splits option.splits)

lemma numbering_loop_None:
  "numbering_loop self (None # rest) =
     (fst (numbering_loop self rest), None # snd (numbering_loop self rest))"
  by (simp split: prod.splits)

lemma after_slide_counter: "g_num_slides (after_slide self slide_vars) = Suc (g_num_slides self)"
  by (simp add: after_slide_def add_toc_entry_def Let_def split: option.splits)

lemma numbering_loop_numbers:
  "map sl_number (List.map_filter id (snd (numbering_loop self slides))) =
     map Some [Suc (g_num_slides self) ..< Suc (g_num_slides self + length (filter (\<lambda>s. s \<noteq> None) slides))]"
proof (induction slides arbitrary: self)
  case Nil
  show ?case by (simp add: List.map_filter_simps)
next
  case (Cons x slides)
  show ?case
  proof (cases x)
    case None
    then show ?thesis using Cons [of self]
      by (simp add: numbering_loop_None List.map_filter_simps del: numbering_loop.simps upt_Suc)
  next
    case (Some slide_vars)
    have "[Suc (g_num_slides self) ..< Suc (Suc (g_num_slides self + length (filter (\<lambda>s. s \<noteq> None) slides)))]
        = Suc (g_num_slides self) # [Suc (Suc (g_num_slides self)) ..< Suc (Suc (g_num_slides self + length (filter (\<lambda>s. s \<noteq> None) slides)))]"
      by (rule upt_conv_Cons) simp
    then show ?thesis using Some Cons [of "after_slide self slide_vars"]
      by (simp add: numbering_loop_Some List.map_filter_simps after_slide_counter del: numbering_loop.simps upt_Suc)
  qed
qed

lemma numbering_loop_counter:
  "g_num_slides (fst (numbering_loop self slides)) =
     g_num_slides self + length (filter (\<lambda>s. s \<noteq> None) slides)"
proof (induction slides arbitrary: self)
  case Nil
  show ?case by simp
next
  case (Cons x slides)
  show ?case
  proof (cases x)
    case None
    then show ?thesis using Cons [of self] by (simp add: numbering_loop_None del: numbering_loop.simps)
  next
    case (Some slide_vars)
    then show ?thesis using Cons [of "after_slide self slide_vars"]
      by (simp add: numbering_loop_Some after_slide_counter del: numbering_loop.simps)
  qed
qed

lemma numbering_loop_frame:
  "map (map_option (\<lambda>s. s\<lparr>sl_number := None\<rparr>)) (snd (numbering_loop self slides)) =
   map (map_option (\<lambda>s. s\<lparr>sl_number := None\<rparr>)) slides"
proof (induction slides arbitrary: self)
  case Nil
  show ?case by simp
next
  case (Cons x slides)
  show ?case
  proof (cases x)
    case None
    then show ?thesis using Cons [of self] by (simp add: numbering_loop_None del: numbering_loop.simps)
  next
    case (Some slide_vars)
    then show ?thesis using Cons [of "after_slide self slide_vars"]
      by (simp add: numbering_loop_Some del: numbering_loop.simps)
  qed
qed

lemma count_present:
  "length (filter (\<lambda>s. s \<noteq> None) slides) = length slides - length (filter (\<lambda>s. s = None) slides)"
  using sum_length_filter_compl [of "\<lambda>s. s = None" slides] by simp

text \<open>
  C1. The numbering pass of \<open>get_template_vars\<close>, run on a generator whose counter is
  0 (as \<open>__init__\<close> leaves it) and a sequence of \<open>N\<close> records-or-absent of which \<open>K\<close>
  are absent: the numbers of the present records, read in the order of the sequence,
  are 1, 2, ..., \<open>N - K\<close>; the sequence is otherwise unchanged (an absent entry stays
  absent, a record keeps its other keys and its place); and the counter ends at
  \<open>N - K\<close>.
\<close>

theorem numbering_pass_gapless:
  assumes "g_num_slides self = 0"
  shows "map sl_number (List.map_filter id (snd (numbering_loop self slides))) =
           map Some [1 ..< Suc (length slides - length (filter (\<lambda>s. s = None) slides))]
       \<and> map (map_option (\<lambda>s. s\<lparr>sl_number := None\<rparr>)) (snd (numbering_loop self slides)) =
           map (map_option (\<lambda>s. s\<lparr>sl_number := None\<rparr>)) slides
       \<and> g_num_slides (fst (numbering_loop self slides)) =
           length slides - length (filter (\<lambda>s. s = None) slides)"
  using assms numbering_loop_numbers [of self slides] numbering_loop_frame [of self slides]
    numbering_loop_counter [of self slides] count_present [of slides]
  by simp

theorem numbering_pass_gapless_witness:
  "g_num_slides (example_generator PyNone False []) = 0
   \<and> map sl_number (List.map_filter id (snd (numbering_loop (example_generator PyNone False [])
        [Some (example_slide ''A'' 1 ''a''), None, Some (example_slide ''B'' 2 ''b''),
         Some (example_slide ''C'' 3 ''c'')]))) = [Some 1, Some 2, Some 3]"
proof -
  have h: "g_num_slides (example_generator PyNone False []) = 0"
    by (simp add: example_generator_def init_attributes_def)
  show ?thesis
    using h numbering_pass_gapless [OF h,
        of "[Some (example_slide ''A'' 1 ''a''), None, Some (example_slide ''B'' 2 ''b''),
             Some (example_slide ''C'' 3 ''c'')]"]
    by (simp add: upt_rec)
qed

subsection \<open>The head title\<close>

lemma get_template_vars_head_title:
  assumes "get_template_vars env cls self slides = Inr ((tv, self'), lg)"
  shows "tv_head_title tv = head_title_of slides"
proof -
  obtain s1 sl1 where n: "numbering_loop self slides = (s1, sl1)"
    by (cases "numbering_loop self slides")
  show ?thesis
  proof (cases "get_toc s1")
    case (Inl e)
    with assms n show ?thesis by (simp add: get_template_vars_def)
  next
    case toc: (Inr toc)
    show ?thesis
    proof (cases "get_css env s1")
      case (Inl e)
      with assms n toc show ?thesis by (simp add: get_template_vars_def and_then_def)
    next
      case css: (Inr c)
      obtain css_v l1 where c: "c = (css_v, l1)" by (cases c)
      show ?thesis
      proof (cases "get_js env s1")
        case (Inl e)
        with assms n toc css c show ?thesis by (simp add: get_template_vars_def and_then_def)
      next
        case (Inr js)
        with assms n toc css c show ?thesis
          by (auto simp add: get_template_vars_def and_then_def)
      qed
    qed
  qed
qed

text \<open>
  C5 (as amended). The head title that \<open>get_template_vars\<close> returns is read from the
  first element of the sequence, \<open>slides[0]\<close>: it is the placeholder
  \<open>Untitled Presentation\<close> when the sequence is empty or its first element is absent,
  and the \<open>title\<close> entry of the first element when that is a record.
\<close>

theorem head_title_first_element:
  assumes "get_template_vars env cls self slides = Inr ((tv, self'), lg)"
  shows "tv_head_title tv = head_title_of slides
       \<and> head_title_of [] = Some ''Untitled Presentation''
       \<and> head_title_of (None # rest) = Some ''Untitled Presentation''
       \<and> head_title_of (Some slide_vars # rest) = sl_title slide_vars"
  using get_template_vars_head_title [OF assms] by (simp add: head_title_of_def)

lemmas example_simps =
  example_env_def example_class_def example_generator_def example_kwargs_def
  example_slide_def init_attributes_def get_or_def

lemma example_template_vars:
  "get_template_vars example_env example_class (example_generator PyNone False [])
     [None, Some (example_slide ''Title A'' 1 ''a'')] =
   Inr ((\<lparr>tv_head_title = Some ''Untitled Presentation'', tv_num_slides = ''1'',
          tv_slides = [None, Some ((example_slide ''Title A'' 1 ''a'')\<lparr>sl_number := Some 1\<rparr>)],
          tv_toc = [TocNode (Some ''Title A'') 1 1 []], tv_embed = False,
          tv_css = (AssetDict ''file:///talk//themes/default/css/print.css''
                      ''contents of /themes/default/css/print.css'', None),
          tv_js = AssetDict ''file:///talk//themes/default/js/slides.js''
                    ''contents of /themes/default/js/slides.js'',
          tv_user_css = [], tv_user_js = []\<rparr>,
         add_toc_entry ((example_generator PyNone False [])\<lparr>g_num_slides := 1\<rparr>)
           (Some ''Title A'') 1 1), [])"
  by (simp add: get_template_vars_def example_simps head_title_of_def add_toc_entry_def
        TOC_MAX_LEVEL_def get_toc_def get_css_def get_js_def path_join_def log_def
        followed_by_def and_then_def Let_def)

theorem head_title_first_element_witness:
  "get_template_vars example_env example_class (example_generator PyNone False [])
     [None, Some (example_slide ''Title A'' 1 ''a'')] =
   Inr ((\<lparr>tv_head_title = Some ''Untitled Presentation'', tv_num_slides = ''1'',
          tv_slides = [None, Some ((example_slide ''Title A'' 1 ''a'')\<lparr>sl_number := Some 1\<rparr>)],
          tv_toc = [TocNode (Some ''Title A'') 1 1 []], tv_embed = False,
          tv_css = (AssetDict ''file:///talk//themes/default/css/print.css''
                      ''contents of /themes/default/css/print.css'', None),
          tv_js = AssetDict ''file:///talk//themes/default/js/slides.js''
                    ''contents of /themes/default/js/slides.js'',
          tv_user_css = [], tv_user_js = []\<rparr>,
         add_toc_entry ((example_generator PyNone False [])\<lparr>g_num_slides := 1\<rparr>)
           (Some ''Title A'') 1 1), [])
   \<and> tv_head_title \<lparr>tv_head_title = Some ''Untitled Presentation'', tv_num_slides = ''1'',
          tv_slides = [None, Some ((example_slide ''Title A'' 1 ''a'')\<lparr>sl_number := Some 1\<rparr>)],
          tv_toc = [TocNode (Some ''Title A'') 1 1 []], tv_embed = False,
          tv_css = (AssetDict ''file:///talk//themes/default/css/print.css''
                      ''contents of /themes/default/css/print.css'', None),
          tv_js = AssetDict ''file:///talk//themes/default/js/slides.js''
                    ''contents of /themes/default/js/slides.js'',
          tv_user_css = [], tv_user_js = []\<rparr>
     = head_title_of [None, Some (example_slide ''Title A'' 1 ''a'')]"
  using example_template_vars head_title_first_element [OF example_template_vars, THEN conjunct1]
  by (rule conjI)

theorem head_title_counterexample:
  "sl_title (example_slide ''Title A'' 1 ''a'') = Some ''Title A''
   \<and> outcome (and_then
        (get_template_vars example_env example_class (example_generator PyNone False [])
           [None, Some (example_slide ''Title A'' 1 ''a'')])
        (\<lambda>(tv, self'). Inr (tv_head_title tv, []))) = Inr (Some ''Untitled Presentation'')
   \<and> head_title_of [Some \<lparr>sl_header = None, sl_title = None, sl_level = None,
        sl_content = Some ''body'', sl_classes = [], sl_source = None, sl_number = None\<rparr>] = None"
proof -
  have "sl_title (example_slide ''Title A'' 1 ''a'') = Some ''Title A''"
    by (simp add: example_slide_def)
  moreover have "outcome (and_then
        (get_template_vars example_env example_class (example_generator PyNone False [])
           [None, Some (example_slide ''Title A'' 1 ''a'')])
        (\<lambda>(tv, self'). Inr (tv_head_title tv, []))) = Inr (Some ''Untitled Presentation'')"
    unfolding example_template_vars by (simp add: and_then_def outcome_def)
  moreover have "head_title_of [Some \<lparr>sl_header = None, sl_title = None, sl_level = None,
        sl_content = Some ''body'', sl_classes = [], sl_source = None, sl_number = None\<rparr>] = None"
    by (simp add: head_title_of_def)
  ultimately show ?thesis by blast
qed


subsection \<open>The macro stage\<close>

lemma log_ok:
  "logger_ok self \<Longrightarrow>
     log self message severity =
       Inr ((), if g_verbose self \<and> truthy (g_logger self) then [(message, severity)] else [])"
  by (auto simp: log_def logger_ok_def split: if_splits)

lemma macros_loop_ok:
  assumes "logger_ok self"
    and "\<forall>m\<in>set ms. macro_new m (g_logger self) (g_embed self) = None"
  shows "macros_loop self source ms (content, classes, macro) =
     Inr (apply_macros self source ms (content, classes),
          if g_verbose self \<and> truthy (g_logger self)
          then failure_lines self source ms content else [])"
  using assms
proof (induction ms arbitrary: content classes macro)
  case Nil
  then show ?case by simp
next
  case (Cons m ms)
  then show ?case
    by (cases "macro_process m (g_logger self) (g_embed self) content source")
       (simp_all add: macro_failed_def log_ok followed_by_simps)
qed

lemma apply_macros_append:
  "apply_macros self source (xs @ ys) st =
     apply_macros self source ys (apply_macros self source xs st)"
proof (induction xs arbitrary: st)
  case Nil
  then show ?case by (cases st) simp
next
  case (Cons m ms)
  obtain c cls where st: "st = (c, cls)" by (cases st)
  show ?case unfolding st using Cons.IH
    by (cases "macro_process m (g_logger self) (g_embed self) c source") simp_all
qed

lemma failure_lines_append:
  "failure_lines self source (xs @ ys) content =
     failure_lines self source xs content
       @ failure_lines self source ys (fst (apply_macros self source xs (content, classes)))"
proof (induction xs arbitrary: content classes)
  case Nil
  then show ?case by simp
next
  case (Cons m ms)
  show ?case using Cons.IH
    by (cases "macro_process m (g_logger self) (g_embed self) content source") simp_all
qed

text \<open>
  C2 (as amended). When the logger is absent, false or callable and every registered
  macro class can be instantiated, \<open>process_macros\<close> does not raise. If one macro
  raises in \<open>process\<close> on the content that reaches it, the result is what the macros
  after it produce from that content and the classes collected so far (a macro that
  raises is left out, the others run in order and their classes are appended); the
  failure is handed to \<open>log\<close> as one line naming the macro, the source and the error,
  with the default severity \<open>notice\<close>, and the line reaches the sink only in verbose
  mode with a logger set.
\<close>

theorem process_macros_isolates_failure:
  assumes "logger_ok self"
    and "\<forall>m\<in>set (g_macros self). macro_new m (g_logger self) (g_embed self) = None"
    and "g_macros self = earlier @ failing # later"
    and "apply_macros self source earlier (content, []) = (content1, classes1)"
    and "macro_process failing (g_logger self) (g_embed self) content1 source = Raises e"
  shows "process_macros self content source =
           Inr (apply_macros self source later (content1, classes1),
                if g_verbose self \<and> truthy (g_logger self)
                then failure_lines self source (g_macros self) content else [])
       \<and> (macro_str failing @ '' processing failed in '' @ str_opt source @ '': '' @ e,
            ''notice'') \<in> set (failure_lines self source (g_macros self) content)"
proof -
  have "apply_macros self source (g_macros self) (content, []) =
          apply_macros self source later (content1, classes1)"
    using assms(3,4,5) by (simp add: apply_macros_append)
  moreover have "failure_lines self source (g_macros self) content =
      failure_lines self source earlier content
        @ failure_lines self source (failing # later) content1"
    using assms(3,4) failure_lines_append [of self source earlier "failing # later" content "[]"]
    by simp
  ultimately show ?thesis
    using assms(1,2,5) macros_loop_ok [of self "g_macros self" source content "[]" None]
    by (simp add: process_macros_def)
qed

lemmas example_simps2 =
  example_generator_def example_kwargs_def init_attributes_def get_or_def
  failing_macro_def fx_macro_def broken_macro_def

theorem process_macros_isolates_failure_witness:
  "logger_ok (example_generator (PyCallable 0) True [fx_macro, failing_macro, fx_macro])
   \<and> process_macros (example_generator (PyCallable 0) True [fx_macro, failing_macro, fx_macro])
        ''body'' (Some ''slides.md'') =
       Inr ((''body!!'', [''fx'', ''fx'']),
            [(''<FailingMacro> processing failed in slides.md: boom'', ''notice'')])"
proof -
  let ?g = "example_generator (PyCallable 0) True [fx_macro, failing_macro, fx_macro]"
  have ok: "logger_ok ?g"
    by (simp add: logger_ok_def example_simps2)
  have ctor: "\<forall>m\<in>set (g_macros ?g). macro_new m (g_logger ?g) (g_embed ?g) = None"
    by (simp add: example_simps2)
  have split: "g_macros ?g = [fx_macro] @ failing_macro # [fx_macro]"
    by (simp add: example_simps2)
  have before: "apply_macros ?g (Some ''slides.md'') [fx_macro] (''body'', []) = (''body!'', [''fx''])"
    by (simp add: example_simps2)
  have fails: "macro_process failing_macro (g_logger ?g) (g_embed ?g) ''body!'' (Some ''slides.md'')
                 = Raises ''boom''"
    by (simp add: example_simps2)
  have after: "apply_macros ?g (Some ''slides.md'') [fx_macro] (''body!'', [''fx''])
                 = (''body!!'', [''fx'', ''fx''])"
    by (simp add: example_simps2)
  have lines: "failure_lines ?g (Some ''slides.md'') (g_macros ?g) ''body'' =
                 [(''<FailingMacro> processing failed in slides.md: boom'', ''notice'')]"
    by (simp add: example_simps2 str_opt_def)
  have verbose: "g_verbose ?g \<and> truthy (g_logger ?g)"
    by (simp add: example_simps2)
  show ?thesis
    using ok process_macros_isolates_failure [OF ok ctor split before fails, THEN conjunct1]
    unfolding after lines using verbose by simp
qed

theorem process_macros_counterexample:
  "process_macros (example_generator PyNone False [broken_macro, fx_macro])
       ''body'' (Some ''slides.md'') = Inl (UnboundLocalError ''macro'')
   \<and> process_macros (example_generator (PyCallable 0) True [failing_macro])
       ''body'' (Some ''slides.md'') =
       Inr ((''body'', []), [(''<FailingMacro> processing failed in slides.md: boom'', ''notice'')])
   \<and> process_macros (example_generator (PyInt 5) False [failing_macro])
       ''body'' (Some ''slides.md'') = Inl (ValueError ''Invalid logger set, must be a callable'')"
  by (simp add: process_macros_def example_simps2 macro_failed_def log_def followed_by_def
        str_opt_def)

subsection \<open>The table of contents\<close>

lemma get_toc_1221:
  "get_toc (self\<lparr>g_toc :=
      [\<lparr>entry_title = t1, entry_number = n1, entry_level = 1\<rparr>,
       \<lparr>entry_title = t2, entry_number = n2, entry_level = 2\<rparr>,
       \<lparr>entry_title = t3, entry_number = n3, entry_level = 2\<rparr>,
       \<lparr>entry_title = t4, entry_number = n4, entry_level = 1\<rparr>]\<rparr>) =
   Inr [TocNode t1 n1 1 [TocNode t2 n2 2 [], TocNode t3 n3 2 []], TocNode t4 n4 1 []]"
  by (simp add: get_toc_def)

lemma numbering_loop_12213:
  "g_toc (fst (numbering_loop (self\<lparr>g_toc := []\<rparr>)
      [Some (s1\<lparr>sl_level := Some 1\<rparr>), Some (s2\<lparr>sl_level := Some 2\<rparr>),
       Some (s3\<lparr>sl_level := Some 2\<rparr>), Some (s4\<lparr>sl_level := Some 1\<rparr>),
       Some (s5\<lparr>sl_level := Some 3\<rparr>)])) =
   [\<lparr>entry_title = sl_title s1, entry_number = g_num_slides self + 1, entry_level = 1\<rparr>,
    \<lparr>entry_title = sl_title s2, entry_number = g_num_slides self + 2, entry_level = 2\<rparr>,
    \<lparr>entry_title = sl_title s3, entry_number = g_num_slides self + 3, entry_level = 2\<rparr>,
    \<lparr>entry_title = sl_title s4, entry_number = g_num_slides self + 4, entry_level = 1\<rparr>]"
  by (simp add: add_toc_entry_def TOC_MAX_LEVEL_def Let_def split: prod.splits)

text \<open>
  C3 (as amended). For the flat TOC entry sequence with levels [1,2,2,1], \<open>get_toc\<close>
  returns a tree with two root entries (the two level-1 entries, in order); the first
  root has exactly the two level-2 entries as children and the second root has none.
  A level-3 entry does not reach \<open>get_toc\<close> from the numbering pass: for slides with
  levels [1,2,2,1,3] the pass records the first four only (\<open>TOC_MAX_LEVEL\<close> is 2).
\<close>

theorem get_toc_two_roots:
  "get_toc (self\<lparr>g_toc :=
      [\<lparr>entry_title = t1, entry_number = n1, entry_level = 1\<rparr>,
       \<lparr>entry_title = t2, entry_number = n2, entry_level = 2\<rparr>,
       \<lparr>entry_title = t3, entry_number = n3, entry_level = 2\<rparr>,
       \<lparr>entry_title = t4, entry_number = n4, entry_level = 1\<rparr>]\<rparr>) =
     Inr [TocNode t1 n1 1 [TocNode t2 n2 2 [], TocNode t3 n3 2 []], TocNode t4 n4 1 []]
   \<and> g_toc (fst (numbering_loop (self\<lparr>g_toc := []\<rparr>)
      [Some (s1\<lparr>sl_level := Some 1\<rparr>), Some (s2\<lparr>sl_level := Some 2\<rparr>),
       Some (s3\<lparr>sl_level := Some 2\<rparr>), Some (s4\<lparr>sl_level := Some 1\<rparr>),
       Some (s5\<lparr>sl_level := Some 3\<rparr>)])) =
     [\<lparr>entry_title = sl_title s1, entry_number = g_num_slides self + 1, entry_level = 1\<rparr>,
      \<lparr>entry_title = sl_title s2, entry_number = g_num_slides self + 2, entry_level = 2\<rparr>,
      \<lparr>entry_title = sl_title s3, entry_number = g_num_slides self + 3, entry_level = 2\<rparr>,
      \<lparr>entry_title = sl_title s4, entry_number = g_num_slides self + 4, entry_level = 1\<rparr>]"
  by (intro conjI get_toc_1221 numbering_loop_12213)

theorem get_toc_two_roots_witness:
  "get_toc ((example_generator PyNone False [])\<lparr>g_toc :=
      [\<lparr>entry_title = Some ''A'', entry_number = 1, entry_level = 1\<rparr>,
       \<lparr>entry_title = Some ''B'', entry_number = 2, entry_level = 2\<rparr>,
       \<lparr>entry_title = Some ''C'', entry_number = 3, entry_level = 2\<rparr>,
       \<lparr>entry_title = Some ''D'', entry_number = 4, entry_level = 1\<rparr>]\<rparr>) =
     Inr [TocNode (Some ''A'') 1 1 [TocNode (Some ''B'') 2 2 [], TocNode (Some ''C'') 3 2 []],
          TocNode (Some ''D'') 4 1 []]"
  by (rule get_toc_two_roots [THEN conjunct1])

theorem get_toc_counterexample:
  "get_toc ((example_generator PyNone False [])\<lparr>g_toc :=
      [\<lparr>entry_title = Some ''A'', entry_number = 1, entry_level = 1\<rparr>,
       \<lparr>entry_title = Some ''B'', entry_number = 2, entry_level = 2\<rparr>,
       \<lparr>entry_title = Some ''C'', entry_number = 3, entry_level = 2\<rparr>,
       \<lparr>entry_title = Some ''D'', entry_number = 4, entry_level = 1\<rparr>,
       \<lparr>entry_title = Some ''E'', entry_number = 5, entry_level = 3\<rparr>]\<rparr>) =
     Inl (IndexError ''list index out of range'')"
  by (simp add: get_toc_def)

subsection \<open>The logger and the constructor\<close>

lemma log_invalid_logger:
  "truthy (g_logger self) \<Longrightarrow> \<not> callable (g_logger self) \<Longrightarrow>
     log self message severity = Inl (ValueError ''Invalid logger set, must be a callable'')"
  by (simp add: log_def)

lemma log_false_logger:
  "\<not> truthy (g_logger self) \<Longrightarrow> log self message severity = Inr ((), [])"
  by (simp add: log_def)

lemma register_macro_logger:
  "register_macro self ms = Inr self' \<Longrightarrow> g_logger self' = g_logger self"
  by (induction self ms rule: register_macro.induct) auto

lemma register_macro_classes:
  "\<exists>self'. register_macro self (map MacroClass ms) = Inr self'"
  by (induction ms arbitrary: self) auto

lemma register_macro_error:
  "register_macro self ms = Inl e \<Longrightarrow>
     e = TypeError ''Coundn't register macro; a macro must inherit from macro.Macro''"
  by (induction self ms rule: register_macro.induct) auto

lemma init_destination_error:
  "init_destination env self = Inl e \<Longrightarrow> (\<forall>m. e \<noteq> ValueError m)"
  by (auto simp: init_destination_def find_theme_dir_def get_template_file_def Let_def
           split: pyval.splits if_splits sum.splits)

lemma parse_config_invalid_logger:
  "truthy (g_logger self) \<Longrightarrow> \<not> callable (g_logger self) \<Longrightarrow>
     parse_config env self config_source =
       Inl (ValueError ''Invalid logger set, must be a callable'')"
  by (simp add: parse_config_def log_invalid_logger followed_by_simps)

lemma init_cfg_invalid_logger:
  assumes "truthy v" and "\<not> callable v" and "kw_logger kw = Some v"
    and "source \<noteq> []" and "os_path_exists env source" and "endswith source ''.cfg''"
    and "default_macros cls = map MacroClass ms"
  shows "Generator_init env cls source kw =
           Inl (ValueError ''Invalid logger set, must be a callable'')"
proof -
  obtain self1 where r: "register_macro (init_attributes kw) (default_macros cls) = Inr self1"
    using register_macro_classes [of "init_attributes kw" ms] assms(7) by auto
  have "g_logger self1 = v"
    using register_macro_logger [OF r] assms(3) by (simp add: init_attributes_def get_or_def)
  then show ?thesis
    using assms(1,2,4,5,6) r
    by (simp add: Generator_init_def init_source_def parse_config_invalid_logger
          and_then_def Let_def)
qed

lemma init_other_source:
  assumes "\<not> endswith source ''.cfg''"
  shows "Generator_init env cls source kw \<noteq> Inl (ValueError m)"
proof (cases "register_macro (init_attributes kw) (default_macros cls)")
  case (Inl e)
  then show ?thesis
    using register_macro_error [OF Inl] by (simp add: Generator_init_def)
next
  case (Inr self1)
  show ?thesis
  proof (cases "source = [] \<or> \<not> os_path_exists env source")
    case True
    then show ?thesis using Inr by (auto simp: Generator_init_def Let_def)
  next
    case False
    define self3 where "self3 =
      (if truthy (g_direct self1) then self1\<lparr>g_verbose := True\<rparr> else self1)
        \<lparr>g_source_base_dir := os_path_split_head env (os_path_abspath env source),
         g_source := SourcePath source\<rparr>"
    have "Generator_init env cls source kw =
            (case init_destination env self3 of
               Inl e \<Rightarrow> Inl e | Inr self4 \<Rightarrow> Inr ((self4, cls), []))"
      using Inr False assms
      by (auto simp add: Generator_init_def init_source_def and_then_def Let_def self3_def
            split: sum.splits)
    then show ?thesis
      using init_destination_error [of env self3]
      by (cases "init_destination env self3") auto
  qed
qed

text \<open>
  C6 (as amended). The logger is checked by \<open>log\<close>, not by \<open>__init__\<close>: for a logger
  that is true and not callable every call of \<open>log\<close> raises the error
  \<open>Invalid logger set, must be a callable\<close>. \<open>__init__\<close> calls \<open>log\<close> only while it
  parses a configuration file, so construction raises this error when the source is
  an existing \<open>.cfg\<close> file, and for any other source construction never raises it (the
  error is then raised by the first later call of \<open>log\<close>). A logger that is false
  (\<open>0\<close>, the empty string) never makes \<open>log\<close> raise.
\<close>

theorem logger_checked_by_log:
  assumes "truthy v" and "\<not> callable v" and "kw_logger kw = Some v"
  shows "log (self\<lparr>g_logger := v\<rparr>) message severity =
           Inl (ValueError ''Invalid logger set, must be a callable'')
       \<and> (source \<noteq> [] \<and> os_path_exists env source \<and> endswith source ''.cfg''
            \<and> default_macros cls = map MacroClass ms \<longrightarrow>
            Generator_init env cls source kw =
              Inl (ValueError ''Invalid logger set, must be a callable''))
       \<and> (\<not> endswith source ''.cfg'' \<longrightarrow>
            Generator_init env cls source kw \<noteq>
              Inl (ValueError ''Invalid logger set, must be a callable''))
       \<and> (\<not> truthy (g_logger other) \<longrightarrow> log other message severity = Inr ((), []))"
  using assms log_invalid_logger [of "self\<lparr>g_logger := v\<rparr>" message severity]
    init_cfg_invalid_logger [of v kw source env cls ms]
    init_other_source [of source env cls kw] log_false_logger [of other message severity]
  by simp

theorem logger_checked_by_log_witness:
  "truthy (PyInt 5) \<and> \<not> callable (PyInt 5)
   \<and> kw_logger (example_kwargs (Some (PyInt 5)) False) = Some (PyInt 5)
   \<and> Generator_init example_env example_class ''talk.cfg''
        (example_kwargs (Some (PyInt 5)) False) =
       Inl (ValueError ''Invalid logger set, must be a callable'')"
proof -
  have a: "truthy (PyInt 5)" and b: "\<not> callable (PyInt 5)"
    and c: "kw_logger (example_kwargs (Some (PyInt 5)) False) = Some (PyInt 5)"
    by (simp_all add: example_kwargs_def)
  have d: "''talk.cfg'' \<noteq> [] \<and> os_path_exists example_env ''talk.cfg''
            \<and> endswith ''talk.cfg'' ''.cfg''
            \<and> default_macros example_class = map MacroClass []"
    by (simp add: example_env_def example_class_def endswith_def)
  show ?thesis
    using a b c d
      logger_checked_by_log [OF a b c, where source = "''talk.cfg''" and env = example_env
        and cls = example_class and ms = "[]", THEN conjunct2, THEN conjunct1]
    by blast
qed

theorem logger_counterexample:
  "truthy (PyInt 5) \<and> \<not> callable (PyInt 5)
   \<and> Generator_init example_env example_class ''slides.md''
        (example_kwargs (Some (PyInt 5)) False) =
       Inr ((example_generator (PyInt 5) False [], example_class), [])
   \<and> \<not> callable (PyInt 0)
   \<and> log (example_generator (PyInt 0) True []) ''Entering deck'' ''notice'' = Inr ((), [])"
  using init_example [of "PyInt 5" False]
  by (simp add: log_def example_generator_def example_kwargs_def init_attributes_def get_or_def)

subsection \<open>User css and js\<close>

text \<open>
  C10. \<open>add_user_css\<close> called twice with the path \<open>a.css\<close> (the file exists): the
  shared list \<open>user_css\<close> of the class ends with two entries for \<open>a.css\<close>, since the
  test \<open>css_path in self.user_css\<close> compares the path with the stored dicts.
\<close>

theorem add_user_css_twice:
  "map_sum id user_css (add_user_css example_env [''a.css''] example_class) =
     Inr [AssetDict ''file:///talk/a.css'' ''contents of a.css'']
   \<and> map_sum id user_css
        (add_user_css example_env [''a.css'']
           (example_class\<lparr>user_css := [AssetDict ''file:///talk/a.css'' ''contents of a.css'']\<rparr>)) =
     Inr [AssetDict ''file:///talk/a.css'' ''contents of a.css'',
          AssetDict ''file:///talk/a.css'' ''contents of a.css'']"
  by (simp add: example_env_def example_class_def)

subsection \<open>The heading search of get_slide_vars\<close>

lemma closing_tag_text: "closing_tag s = Some (tag, rest) \<Longrightarrow> s = tag @ rest"
  by (induction s rule: closing_tag.induct) (auto split: if_splits)

lemma title_lazy_text:
  "title_lazy acc s = Some (title, tag, rest) \<Longrightarrow> acc @ s = title @ tag @ rest"
proof (induction acc s rule: title_lazy.induct)
  case (1 title)
  then show ?case by simp
next
  case (2 acc c s)
  then show ?case
    by (cases "closing_tag s") (auto dest: closing_tag_text)
qed

lemma attrs_lazy_text:
  "attrs_lazy acc s = Some (attrs, title, tag, rest) \<Longrightarrow>
     acc @ s = attrs @ ''>'' @ title @ tag @ rest"
proof (induction acc s rule: attrs_lazy.induct)
  case (1 attrs)
  then show ?case by simp
next
  case (2 acc c s)
  show ?case
  proof (cases "if c = CHR ''>'' then title_lazy [] s else None")
    case None
    then show ?thesis using 2 by simp
  next
    case (Some r)
    then have c: "c = CHR ''>''" and t: "title_lazy [] s = Some r"
      by (auto split: if_splits)
    obtain t1 t2 t3 where r: "r = (t1, t2, t3)" by (cases r)
    have "s = t1 @ t2 @ t3"
      using title_lazy_text [of "[]" s t1 t2 t3] t r by simp
    then show ?thesis using 2 Some r c by simp
  qed
qed

lemma digits_lazy_text:
  "digits_lazy acc s = Some (digits, attrs, title, tag, rest) \<Longrightarrow>
     acc @ s = digits @ attrs @ ''>'' @ title @ tag @ rest"
proof (induction acc s rule: digits_lazy.induct)
  case (1 digits)
  then show ?case by simp
next
  case (2 acc c s)
  then have d: "is_digit c" by (auto split: if_splits)
  show ?case
  proof (cases "attrs_lazy [] s")
    case None
    then show ?thesis using 2 d by simp
  next
    case (Some r)
    obtain a1 a2 a3 a4 where r: "r = (a1, a2, a3, a4)" by (cases r)
    have "s = a1 @ ''>'' @ a2 @ a3 @ a4"
      using attrs_lazy_text [of "[]" s a1 a2 a3 a4] Some r by simp
    then show ?thesis using 2 Some r d by simp
  qed
qed

lemma heading_at_text:
  assumes "heading_at s = Some found"
  shows "\<exists>rest. s = group1 found @ rest \<and> group4 found = body_group rest"
proof -
  obtain a b s' where s: "s = a # b # s'" and ab: "[a, b] = ''<h''"
    using assms by (auto simp: heading_at_def split: list.splits if_splits)
  obtain r where r: "digits_lazy [] s' = Some r"
    using assms s ab by (auto simp: heading_at_def split: option.splits)
  obtain digits attrs title tag rest where r': "r = (digits, attrs, title, tag, rest)"
    by (cases r)
  have found: "found = \<lparr>group1 = ''<h'' @ digits @ attrs @ ''>'' @ title @ tag,
                        group2 = digits, group3 = title, group4 = body_group rest\<rparr>"
    using assms s ab r r' by (simp add: heading_at_def)
  have "s' = digits @ attrs @ ''>'' @ title @ tag @ rest"
    using digits_lazy_text [of "[]" s' digits attrs title tag rest] r r' by simp
  then have "s = group1 found @ rest \<and> group4 found = body_group rest"
    using s ab found by simp
  then show ?thesis by blast
qed

lemma heading_at_Nil [simp]: "heading_at [] = None"
  by (simp add: heading_at_def)






lemma heading_at_header:
  assumes "heading_at s = Some found"
  shows "group1 found \<noteq> []"
proof -
  obtain a b s' where s: "s = a # b # s'" and ab: "[a, b] = ''<h''"
    using assms by (auto simp: heading_at_def split: list.splits if_splits)
  obtain r where r: "digits_lazy [] s' = Some r"
    using assms s ab by (auto simp: heading_at_def split: option.splits)
  obtain digits attrs title tag rest where r': "r = (digits, attrs, title, tag, rest)"
    by (cases r)
  have "found = \<lparr>group1 = ''<h'' @ digits @ attrs @ ''>'' @ title @ tag,
                  group2 = digits, group3 = title, group4 = body_group rest\<rparr>"
    using assms s ab r r' by (simp add: heading_at_def)
  then show ?thesis by simp
qed



lemma example_heading:
  "heading_at ''<h1>T</h1>body'' =
     Some \<lparr>group1 = ''<h1>T</h1>'', group2 = ''1'', group3 = ''T'', group4 = Some ''body''\<rparr>"
  by (simp add: heading_at_def is_digit_def body_group_def is_space_def)




subsection \<open>The content walker\<close>

lemma outcome_simps [simp]:
  "outcome (Inl e) = Inl e"
  "outcome (Inr (a, l)) = Inr a"
  by (simp_all add: outcome_def)

lemma outcome_followed_by:
  "logger_ok self \<Longrightarrow> outcome (followed_by (log self message severity) r) = outcome r"
  by (cases r) (auto simp: log_ok followed_by_simps)

lemma outcome_exiting:
  "logger_ok self \<Longrightarrow> outcome (exiting self source_text r) = outcome r"
  by (cases r) (auto simp: exiting_def and_then_def log_ok followed_by_simps)

lemma outcome_exiting_nonempty:
  "outcome r = Inr slides \<Longrightarrow> slides \<noteq> [] \<Longrightarrow> outcome (exiting self source_text r) = Inr slides"
  by (cases r) (auto simp: exiting_def and_then_def)

lemma split_hr_none:
  "(\<forall>i\<le>length s. hr_at (drop i s) = None) \<Longrightarrow> split_hr piece s = [piece @ s]"
proof (induction s arbitrary: piece)
  case Nil
  show ?case by simp
next
  case (Cons c s)
  have "hr_at (c # s) = None"
    using Cons.prems by (auto dest: spec [of _ 0])
  moreover have "\<forall>i\<le>length s. hr_at (drop i s) = None"
  proof (intro allI impI)
    fix i assume "i \<le> length s"
    then show "hr_at (drop i s) = None"
      using Cons.prems by (auto dest: spec [of _ "Suc i"])
  qed
  ultimately show ?case using Cons.IH [of "piece @ [c]"] by simp
qed

lemma fetch_single_fragment:
  assumes "new_parser env (splitext_ext source) (g_encoding self) (g_extensions self)
             = Some (format, parse)"
    and "contents (g_encoding self) = ReadOk file_contents"
    and "split_hr [] (parse file_contents) = [doc]"
    and "logger_ok self"
  shows "outcome (fetch_contents env self (Path source (File contents))) =
           (case outcome (get_slide_vars env self doc (Some source)) of
              Inl e \<Rightarrow> Inl e | Inr slide_vars \<Rightarrow> Inr [slide_vars])"
proof (cases "get_slide_vars env self doc (Some source)")
  case (Inl e)
  then show ?thesis using assms
    by (simp add: outcome_exiting outcome_followed_by and_then_def)
next
  case (Inr r)
  obtain sv l where r: "r = (sv, l)" by (cases r)
  show ?thesis using assms Inr r
    by (simp add: outcome_exiting outcome_followed_by and_then_def)
qed

lemma re_search_text:
  "re_search acc s = Some (skipped, found) \<Longrightarrow>
     \<exists>rest. acc @ s = skipped @ group1 found @ rest \<and> group4 found = body_group rest
            \<and> group1 found \<noteq> []"
proof (induction s arbitrary: acc)
  case Nil
  then show ?case by simp
next
  case (Cons c s)
  show ?case
  proof (cases "heading_at (c # s)")
    case None
    then have "re_search (acc @ [c]) s = Some (skipped, found)"
      using Cons.prems by simp
    from Cons.IH [OF this] show ?thesis by simp
  next
    case (Some f)
    then have "skipped = acc" and "found = f"
      using Cons.prems by simp_all
    then show ?thesis
      using heading_at_text [OF Some] heading_at_header [OF Some] by auto
  qed
qed

lemma get_slide_vars_plain:
  assumes "re_search [] slide_src = None" and "strip slide_src \<noteq> []"
    and "process_macros self (strip slide_src) source = Inr ((content', classes), lg)"
  shows "get_slide_vars env self slide_src source =
           Inr (if content' = [] then None
                else Some \<lparr>sl_header = None, sl_title = None, sl_level = None,
                           sl_content = Some content', sl_classes = classes,
                           sl_source = (if opt_truthy source
                                        then Some (the source, os_path_abspath env (the source))
                                        else None),
                           sl_number = None\<rparr>, lg)"
  using assms by (simp add: get_slide_vars_def and_then_def opt_truthy_def)

lemma get_slide_vars_heading_body:
  assumes "re_search [] slide_src = Some (skipped, found)"
    and "group4 found = Some body" and "strip body \<noteq> []"
    and "process_macros self (strip body) source = Inr ((content', classes), lg)"
  shows "get_slide_vars env self slide_src source =
           Inr (Some \<lparr>sl_header = Some (group1 found), sl_title = Some (group3 found),
                      sl_level = Some (int_of_digits (group2 found)),
                      sl_content = Some content', sl_classes = classes,
                      sl_source = (if opt_truthy source
                                   then Some (the source, os_path_abspath env (the source))
                                   else None),
                      sl_number = None\<rparr>, lg)"
proof -
  have h: "group1 found \<noteq> []"
    using re_search_text [OF assms(1)] by blast
  have b: "body \<noteq> []"
    using assms(3) by (auto simp: strip_def)
  show ?thesis
    using assms h b by (simp add: get_slide_vars_def and_then_def opt_truthy_def)
qed

lemma get_slide_vars_heading_only:
  assumes "re_search [] slide_src = Some (skipped, found)"
    and "\<not> opt_truthy (map_option strip (group4 found))"
  shows "get_slide_vars env self slide_src source =
           Inr (Some \<lparr>sl_header = Some (group1 found), sl_title = Some (group3 found),
                      sl_level = Some (int_of_digits (group2 found)),
                      sl_content = map_option strip (group4 found), sl_classes = [],
                      sl_source = (if opt_truthy source
                                   then Some (the source, os_path_abspath env (the source))
                                   else None),
                      sl_number = None\<rparr>, [])"
proof -
  have h: "group1 found \<noteq> []"
    using re_search_text [OF assms(1)] by blast
  show ?thesis
  proof (cases "group4 found")
    case None
    then show ?thesis using assms h
      by (simp add: get_slide_vars_def and_then_def opt_truthy_def)
  next
    case (Some body)
    show ?thesis
    proof (cases "body = []")
      case True
      then show ?thesis using assms h Some
        by (simp add: get_slide_vars_def and_then_def opt_truthy_def strip_def)
    next
      case False
      then show ?thesis using assms h Some
        by (simp add: get_slide_vars_def and_then_def opt_truthy_def)
    qed
  qed
qed

text \<open>
  C9 (as amended). For a parsed document in which the boundary pattern matches at no
  position, the split yields exactly one fragment, the whole document, and the file
  contributes exactly one slide-record-or-absent, the one extracted from that
  fragment. When the document holds no heading match and is not blank, and the macro
  stage returns the trimmed document unchanged, the record's content is the whole
  document after the whitespace trim (its classes are those the macros add). When the
  document holds a heading, the document is some text, the heading and the text that
  trails it, and the record's content is what the macro stage returns for the
  trimmed trailing text; when nothing but whitespace trails the heading no macro
  runs and the content is absent or empty.
\<close>

theorem no_boundary_single_fragment:
  assumes "\<forall>i\<le>length doc. hr_at (drop i doc) = None"
  shows "split_hr [] doc = [doc]
       \<and> (new_parser env (splitext_ext source) (g_encoding self) (g_extensions self)
              = Some (format, parse)
            \<and> contents (g_encoding self) = ReadOk file_contents
            \<and> parse file_contents = doc \<and> logger_ok self \<longrightarrow>
            outcome (fetch_contents env self (Path source (File contents))) =
              (case outcome (get_slide_vars env self doc (Some source)) of
                 Inl e \<Rightarrow> Inl e | Inr slide_vars \<Rightarrow> Inr [slide_vars]))
       \<and> (re_search [] doc = None \<and> strip doc \<noteq> []
            \<and> process_macros self (strip doc) (Some source) = Inr ((strip doc, classes), lg)
            \<longrightarrow>
            get_slide_vars env self doc (Some source) =
              Inr (Some \<lparr>sl_header = None, sl_title = None, sl_level = None,
                         sl_content = Some (strip doc), sl_classes = classes,
                         sl_source = (if source = [] then None
                                      else Some (source, os_path_abspath env source)),
                         sl_number = None\<rparr>, lg))
       \<and> (re_search [] doc = Some (skipped, found) \<longrightarrow>
            (\<exists>rest. doc = skipped @ group1 found @ rest \<and> group4 found = body_group rest))
       \<and> (re_search [] doc = Some (skipped, found) \<and> group4 found = Some body
            \<and> strip body \<noteq> []
            \<and> process_macros self (strip body) (Some source) = Inr ((content', classes'), lg')
            \<longrightarrow>
            get_slide_vars env self doc (Some source) =
              Inr (Some \<lparr>sl_header = Some (group1 found), sl_title = Some (group3 found),
                         sl_level = Some (int_of_digits (group2 found)),
                         sl_content = Some content', sl_classes = classes',
                         sl_source = (if source = [] then None
                                      else Some (source, os_path_abspath env source)),
                         sl_number = None\<rparr>, lg'))
       \<and> (re_search [] doc = Some (skipped, found)
            \<and> \<not> opt_truthy (map_option strip (group4 found)) \<longrightarrow>
            get_slide_vars env self doc (Some source) =
              Inr (Some \<lparr>sl_header = Some (group1 found), sl_title = Some (group3 found),
                         sl_level = Some (int_of_digits (group2 found)),
                         sl_content = map_option strip (group4 found), sl_classes = [],
                         sl_source = (if source = [] then None
                                      else Some (source, os_path_abspath env source)),
                         sl_number = None\<rparr>, []))"
proof -
  have a: "split_hr [] doc = [doc]"
    using split_hr_none [OF assms, of "[]"] by simp
  have b: "new_parser env (splitext_ext source) (g_encoding self) (g_extensions self)
              = Some (format, parse)
            \<and> contents (g_encoding self) = ReadOk file_contents
            \<and> parse file_contents = doc \<and> logger_ok self \<longrightarrow>
            outcome (fetch_contents env self (Path source (File contents))) =
              (case outcome (get_slide_vars env self doc (Some source)) of
                 Inl e \<Rightarrow> Inl e | Inr slide_vars \<Rightarrow> Inr [slide_vars])"
    using fetch_single_fragment [of env source self format parse contents file_contents doc] a
    by blast
  have c: "re_search [] doc = None \<and> strip doc \<noteq> []
            \<and> process_macros self (strip doc) (Some source) = Inr ((strip doc, classes), lg)
            \<longrightarrow>
            get_slide_vars env self doc (Some source) =
              Inr (Some \<lparr>sl_header = None, sl_title = None, sl_level = None,
                         sl_content = Some (strip doc), sl_classes = classes,
                         sl_source = (if source = [] then None
                                      else Some (source, os_path_abspath env source)),
                         sl_number = None\<rparr>, lg)"
    using get_slide_vars_plain [of doc self "Some source" "strip doc" classes lg env]
    by (auto simp: opt_truthy_def)
  have d: "re_search [] doc = Some (skipped, found) \<longrightarrow>
            (\<exists>rest. doc = skipped @ group1 found @ rest \<and> group4 found = body_group rest)"
    using re_search_text [of "[]" doc skipped found] by auto
  have e: "re_search [] doc = Some (skipped, found) \<and> group4 found = Some body
            \<and> strip body \<noteq> []
            \<and> process_macros self (strip body) (Some source) = Inr ((content', classes'), lg')
            \<longrightarrow>
            get_slide_vars env self doc (Some source) =
              Inr (Some \<lparr>sl_header = Some (group1 found), sl_title = Some (group3 found),
                         sl_level = Some (int_of_digits (group2 found)),
                         sl_content = Some content', sl_classes = classes',
                         sl_source = (if source = [] then None
                                      else Some (source, os_path_abspath env source)),
                         sl_number = None\<rparr>, lg')"
    using get_slide_vars_heading_body
      [of doc skipped found body self "Some source" content' classes' lg' env]
    by (auto simp: opt_truthy_def)
  have f: "re_search [] doc = Some (skipped, found)
            \<and> \<not> opt_truthy (map_option strip (group4 found)) \<longrightarrow>
            get_slide_vars env self doc (Some source) =
              Inr (Some \<lparr>sl_header = Some (group1 found), sl_title = Some (group3 found),
                         sl_level = Some (int_of_digits (group2 found)),
                         sl_content = map_option strip (group4 found), sl_classes = [],
                         sl_source = (if source = [] then None
                                      else Some (source, os_path_abspath env source)),
                         sl_number = None\<rparr>, [])"
    using get_slide_vars_heading_only [of doc skipped found env self "Some source"]
    by (auto simp: opt_truthy_def)
  from a b c d e f show ?thesis by blast
qed

lemma example_no_boundary:
  "\<forall>i\<le>length ''<h1>T</h1>body''. hr_at (drop i ''<h1>T</h1>body'') = None"
  by (simp add: le_Suc_eq eval_nat_numeral hr_at_def)

lemma example_no_boundary_plain:
  "\<forall>i\<le>length '' <p>hello</p> ''. hr_at (drop i '' <p>hello</p> '') = None"
  by (simp add: le_Suc_eq eval_nat_numeral hr_at_def)

lemma list_all_upto:
  "(\<forall>i\<le>n. P i) \<Longrightarrow> list_all P [0 ..< Suc n]"
  unfolding list_all_iff by (simp del: upt_Suc)

lemma example_no_boundary_bare:
  "\<forall>i\<le>length ''<h1>T</h1>''. hr_at (drop i ''<h1>T</h1>'') = None"
  by (simp add: le_Suc_eq eval_nat_numeral hr_at_def)

theorem no_boundary_single_fragment_witness:
  "list_all (\<lambda>i. hr_at (drop i ''<h1>T</h1>body'') = None) [0 ..< Suc (length ''<h1>T</h1>body'')]
   \<and> split_hr [] ''<h1>T</h1>body'' = [''<h1>T</h1>body'']
   \<and> outcome (fetch_contents example_env (example_generator PyNone False [fx_macro])
        (Path ''slides.md'' (File (\<lambda>encoding. ReadOk ''<h1>T</h1>body'')))) =
       Inr [Some \<lparr>sl_header = Some ''<h1>T</h1>'', sl_title = Some ''T'', sl_level = Some 1,
                   sl_content = Some ''body!'', sl_classes = [''fx''],
                   sl_source = Some (''slides.md'', ''/talk/slides.md''),
                   sl_number = None\<rparr>]
   \<and> list_all (\<lambda>i. hr_at (drop i '' <p>hello</p> '') = None)
        [0 ..< Suc (length '' <p>hello</p> '')]
   \<and> get_slide_vars example_env (example_generator PyNone False [notes_macro])
        '' <p>hello</p> '' (Some ''slides.md'') =
       Inr (Some \<lparr>sl_header = None, sl_title = None, sl_level = None,
                  sl_content = Some ''<p>hello</p>'', sl_classes = [''has_notes''],
                  sl_source = Some (''slides.md'', ''/talk/slides.md''),
                  sl_number = None\<rparr>, [])
   \<and> (\<exists>rest. ''<h1>T</h1>body'' = ''<h1>T</h1>'' @ rest \<and> body_group rest = Some ''body'')
   \<and> list_all (\<lambda>i. hr_at (drop i ''<h1>T</h1>'') = None) [0 ..< Suc (length ''<h1>T</h1>'')]
   \<and> get_slide_vars example_env (example_generator PyNone False [fx_macro])
        ''<h1>T</h1>'' (Some ''slides.md'') =
       Inr (Some \<lparr>sl_header = Some ''<h1>T</h1>'', sl_title = Some ''T'', sl_level = Some 1,
                  sl_content = None, sl_classes = [],
                  sl_source = Some (''slides.md'', ''/talk/slides.md''),
                  sl_number = None\<rparr>, [])"
proof -
  let ?g1 = "example_generator PyNone False [fx_macro]"
  let ?g2 = "example_generator PyNone False [notes_macro]"
  let ?found = "\<lparr>group1 = ''<h1>T</h1>'', group2 = ''1'', group3 = ''T'',
                  group4 = Some ''body''\<rparr>"
  note thm1 = no_boundary_single_fragment [OF example_no_boundary,
      where env = example_env and self = ?g1 and source = "''slides.md''"
        and format = "''markdown''" and parse = "\<lambda>text. text"
        and contents = "\<lambda>encoding. ReadOk ''<h1>T</h1>body''"
        and file_contents = "''<h1>T</h1>body''"
        and skipped = "[]" and found = ?found and body = "''body''"
        and content' = "''body!''" and classes' = "[''fx'']" and lg' = "[]"]
  note thm2 = no_boundary_single_fragment [OF example_no_boundary_plain,
      where env = example_env and self = ?g2 and source = "''slides.md''"
        and classes = "[''has_notes'']" and lg = "[]"]
  let ?bare = "\<lparr>group1 = ''<h1>T</h1>'', group2 = ''1'', group3 = ''T'', group4 = None\<rparr>"
  note thm3 = no_boundary_single_fragment [OF example_no_boundary_bare,
      where env = example_env and self = ?g1 and source = "''slides.md''"
        and skipped = "[]" and found = ?bare]
  have h1: "list_all (\<lambda>i. hr_at (drop i ''<h1>T</h1>body'') = None)
              [0 ..< Suc (length ''<h1>T</h1>body'')]"
    by (rule list_all_upto [OF example_no_boundary])
  have h2: "list_all (\<lambda>i. hr_at (drop i '' <p>hello</p> '') = None)
              [0 ..< Suc (length '' <p>hello</p> '')]"
    by (rule list_all_upto [OF example_no_boundary_plain])
  have s1: "split_hr [] ''<h1>T</h1>body'' = [''<h1>T</h1>body'']"
    by (rule thm1 [THEN conjunct1])
  have parser: "new_parser example_env (splitext_ext ''slides.md'') (g_encoding ?g1)
                  (g_extensions ?g1) = Some (''markdown'', \<lambda>text. text)"
    by (simp add: example_env_def splitext_ext_def Let_def)
  have rd: "(\<lambda>encoding. ReadOk ''<h1>T</h1>body'') (g_encoding ?g1) = ReadOk ''<h1>T</h1>body''"
    by simp
  have ok: "logger_ok ?g1"
    by (simp add: logger_ok_def example_generator_def example_kwargs_def init_attributes_def
          get_or_def)
  have search1: "re_search [] ''<h1>T</h1>body'' = Some ([], ?found)"
    using example_heading by simp
  have strip1: "strip ''body'' = ''body''"
    by (simp add: strip_def is_space_def)
  have macros1: "process_macros ?g1 (strip ''body'') (Some ''slides.md'') =
                   Inr ((''body!'', [''fx'']), [])"
    unfolding strip1
    by (simp add: process_macros_def example_generator_def example_kwargs_def
          init_attributes_def get_or_def fx_macro_def)
  have g1: "get_slide_vars example_env ?g1 ''<h1>T</h1>body'' (Some ''slides.md'') =
              Inr (Some \<lparr>sl_header = Some ''<h1>T</h1>'', sl_title = Some ''T'',
                         sl_level = Some 1, sl_content = Some ''body!'', sl_classes = [''fx''],
                         sl_source = Some (''slides.md'', ''/talk/slides.md''),
                         sl_number = None\<rparr>, [])"
    using thm1 [THEN conjunct2, THEN conjunct2, THEN conjunct2, THEN conjunct2, THEN conjunct1]
      search1 macros1 strip1
    by (simp add: int_of_digits_def digit_value_def example_env_def)
  have f1: "outcome (fetch_contents example_env ?g1
        (Path ''slides.md'' (File (\<lambda>encoding. ReadOk ''<h1>T</h1>body'')))) =
       Inr [Some \<lparr>sl_header = Some ''<h1>T</h1>'', sl_title = Some ''T'', sl_level = Some 1,
                   sl_content = Some ''body!'', sl_classes = [''fx''],
                   sl_source = Some (''slides.md'', ''/talk/slides.md''),
                   sl_number = None\<rparr>]"
    using thm1 [THEN conjunct2, THEN conjunct1] parser rd ok
    unfolding g1 by simp
  have search2: "re_search [] '' <p>hello</p> '' = None"
    by (simp add: heading_at_def)
  have strip2: "strip '' <p>hello</p> '' = ''<p>hello</p>''"
    by (simp add: strip_def is_space_def)
  have macros2: "process_macros ?g2 (strip '' <p>hello</p> '') (Some ''slides.md'') =
                   Inr ((strip '' <p>hello</p> '', [''has_notes'']), [])"
    unfolding strip2
    by (simp add: process_macros_def example_generator_def example_kwargs_def
          init_attributes_def get_or_def notes_macro_def)
  have g2: "get_slide_vars example_env ?g2 '' <p>hello</p> '' (Some ''slides.md'') =
       Inr (Some \<lparr>sl_header = None, sl_title = None, sl_level = None,
                  sl_content = Some ''<p>hello</p>'', sl_classes = [''has_notes''],
                  sl_source = Some (''slides.md'', ''/talk/slides.md''),
                  sl_number = None\<rparr>, [])"
    using thm2 [THEN conjunct2, THEN conjunct2, THEN conjunct1] search2 macros2 strip2
    by (simp add: example_env_def)
  have d1: "\<exists>rest. ''<h1>T</h1>body'' = ''<h1>T</h1>'' @ rest \<and> body_group rest = Some ''body''"
    using thm1 [THEN conjunct2, THEN conjunct2, THEN conjunct2, THEN conjunct1] search1
    by auto
  have h3: "list_all (\<lambda>i. hr_at (drop i ''<h1>T</h1>'') = None)
              [0 ..< Suc (length ''<h1>T</h1>'')]"
    by (rule list_all_upto [OF example_no_boundary_bare])
  have search3: "re_search [] ''<h1>T</h1>'' = Some ([], ?bare)"
    by (simp add: heading_at_def is_digit_def body_group_def is_space_def)
  have nothing3: "\<not> opt_truthy (map_option strip (group4 ?bare))"
    by (simp add: opt_truthy_def)
  have g3: "get_slide_vars example_env ?g1 ''<h1>T</h1>'' (Some ''slides.md'') =
       Inr (Some \<lparr>sl_header = Some ''<h1>T</h1>'', sl_title = Some ''T'', sl_level = Some 1,
                  sl_content = None, sl_classes = [],
                  sl_source = Some (''slides.md'', ''/talk/slides.md''),
                  sl_number = None\<rparr>, [])"
    using thm3 [THEN conjunct2, THEN conjunct2, THEN conjunct2, THEN conjunct2, THEN conjunct2]
      search3 nothing3
    by (simp add: int_of_digits_def digit_value_def example_env_def)
  from h1 s1 f1 h2 g2 d1 h3 g3 show ?thesis by blast
qed

theorem no_boundary_counterexample:
  "split_hr [] ''<h1>T</h1>body'' = [''<h1>T</h1>body'']
   \<and> strip ''<h1>T</h1>body'' = ''<h1>T</h1>body''
   \<and> fetch_contents example_env (example_generator PyNone False [])
        (Path ''slides.md'' (File (\<lambda>encoding. ReadOk ''<h1>T</h1>body''))) =
       Inr ([Some \<lparr>sl_header = Some ''<h1>T</h1>'', sl_title = Some ''T'', sl_level = Some 1,
                    sl_content = Some ''body'', sl_classes = [],
                    sl_source = Some (''slides.md'', ''/talk/slides.md''),
                    sl_number = None\<rparr>], [])"
proof -
  have a: "split_hr [] ''<h1>T</h1>body'' = [''<h1>T</h1>body'']"
    using split_hr_none [OF example_no_boundary, of "[]"] by simp
  have b: "strip ''<h1>T</h1>body'' = ''<h1>T</h1>body''"
    by (simp add: strip_def is_space_def)
  have g: "get_slide_vars example_env (example_generator PyNone False [])
             ''<h1>T</h1>body'' (Some ''slides.md'') =
           Inr (Some \<lparr>sl_header = Some ''<h1>T</h1>'', sl_title = Some ''T'', sl_level = Some 1,
                    sl_content = Some ''body'', sl_classes = [],
                    sl_source = Some (''slides.md'', ''/talk/slides.md''),
                    sl_number = None\<rparr>, [])"
    by (simp add: get_slide_vars_def heading_at_def is_digit_def body_group_def is_space_def
          opt_truthy_def strip_def int_of_digits_def digit_value_def process_macros_def
          example_generator_def example_kwargs_def init_attributes_def get_or_def
          example_env_def and_then_def)
  have p: "new_parser example_env (splitext_ext ''slides.md'')
             (g_encoding (example_generator PyNone False []))
             (g_extensions (example_generator PyNone False [])) =
           Some (''markdown'', \<lambda>text. text)"
    by (simp add: example_env_def splitext_ext_def Let_def)
  have l: "log (example_generator PyNone False []) message severity = Inr ((), [])" for message severity
    by (simp add: log_def example_generator_def example_kwargs_def init_attributes_def get_or_def)
  have c: "fetch_contents example_env (example_generator PyNone False [])
        (Path ''slides.md'' (File (\<lambda>encoding. ReadOk ''<h1>T</h1>body''))) =
       Inr ([Some \<lparr>sl_header = Some ''<h1>T</h1>'', sl_title = Some ''T'', sl_level = Some 1,
                    sl_content = Some ''body'', sl_classes = [],
                    sl_source = Some (''slides.md'', ''/talk/slides.md''),
                    sl_number = None\<rparr>], [])"
    by (simp add: p l a g exiting_def and_then_def followed_by_simps del: split_hr.simps)
  from a b c show ?thesis by blast
qed

subsection \<open>Files that contribute nothing\<close>

lemma outcome_log:
  "outcome (log self message severity) = outcome (log self message' severity')"
  by (simp add: log_def)

lemma outcome_followed_by_cong:
  assumes "outcome r = outcome r'"
  shows "outcome (followed_by (log self message severity) r) =
         outcome (followed_by (log self message' severity') r')"
proof (cases "truthy (g_logger self) \<and> \<not> callable (g_logger self)")
  case True
  then show ?thesis by (simp add: log_def followed_by_simps)
next
  case False
  then have "logger_ok self" by (auto simp: logger_ok_def)
  then show ?thesis using assms by (simp add: outcome_followed_by)
qed

lemma outcome_exiting_cong:
  assumes "outcome r = outcome r'"
  shows "outcome (exiting self source_text r) = outcome (exiting self source_text' r')"
proof (cases "truthy (g_logger self) \<and> \<not> callable (g_logger self)")
  case True
  then have l: "log self message severity =
                  Inl (ValueError ''Invalid logger set, must be a callable'')" for message severity
    by (simp add: log_def)
  show ?thesis
  proof (cases r)
    case (Inl e)
    then show ?thesis using assms by (cases r') (auto simp: exiting_def and_then_def)
  next
    case (Inr a)
    obtain slides lg where a: "a = (slides, lg)" by (cases a)
    obtain lg' where r': "r' = Inr (slides, lg')"
      using assms Inr a by (cases r') auto
    show ?thesis unfolding Inr a r'
      by (simp add: exiting_def and_then_def l followed_by_simps)
  qed
next
  case False
  then have "logger_ok self" by (auto simp: logger_ok_def)
  then show ?thesis using assms by (simp add: outcome_exiting)
qed

lemma outcome_extend_each_Cons:
  "outcome (extend_each f (x # xs)) =
     (case outcome (f x) of
        Inl e \<Rightarrow> Inl e
      | Inr s1 \<Rightarrow> (case outcome (extend_each f xs) of
                     Inl e \<Rightarrow> Inl e | Inr s2 \<Rightarrow> Inr (s1 @ s2)))"
  by (auto simp: outcome_def split: sum.splits prod.splits)

lemma outcome_extend_each_skip_first:
  "outcome (f x) = Inr [] \<Longrightarrow> outcome (extend_each f (x # xs)) = outcome (extend_each f xs)"
  by (simp add: outcome_extend_each_Cons del: extend_each.simps split: sum.splits)

lemma outcome_extend_each_skip:
  "outcome (f x) = Inr [] \<Longrightarrow>
     outcome (extend_each f (xs @ x # ys)) = outcome (extend_each f (xs @ ys))"
proof (induction xs)
  case Nil
  then show ?case by (simp add: outcome_extend_each_skip_first del: extend_each.simps)
next
  case (Cons a xs)
  then show ?case
    by (simp add: outcome_extend_each_Cons del: extend_each.simps cong: sum.case_cong)
qed

lemma outcome_extend_each_filter:
  "(\<forall>x\<in>set xs. \<not> P x \<longrightarrow> outcome (f x) = Inr []) \<Longrightarrow>
     outcome (extend_each f (filter P xs)) = outcome (extend_each f xs)"
proof (induction xs)
  case Nil
  show ?case by simp
next
  case (Cons a xs)
  show ?case
  proof (cases "P a")
    case True
    then show ?thesis using Cons
      by (simp add: outcome_extend_each_Cons del: extend_each.simps cong: sum.case_cong)
  next
    case False
    then have "outcome (f a) = Inr []" using Cons.prems by simp
    then show ?thesis using False Cons
      by (simp add: outcome_extend_each_skip_first del: extend_each.simps)
  qed
qed

lemma fetch_no_parser:
  "new_parser env (splitext_ext source) (g_encoding self) (g_extensions self) = None \<Longrightarrow>
     fetch_contents env self (Path source (File contents)) = Inr ([], [])"
  by simp

lemma fetch_decode_error:
  assumes "new_parser env (splitext_ext source) (g_encoding self) (g_extensions self)
             = Some (format, parse)"
    and "contents (g_encoding self) = UnicodeDecodeError"
    and "logger_ok self"
  shows "fetch_contents env self (Path source (File contents)) =
           Inr ([], if g_verbose self \<and> truthy (g_logger self)
                    then [(''Adding   '' @ source @ '' ('' @ format @ '')'', ''notice''),
                          (''Unable to decode source '' @ source @ '': skipping'', ''warning''),
                          (''Exiting  '' @ source @ '': no contents found'', ''notice'')]
                    else [])"
  using assms by (simp add: log_ok followed_by_simps exiting_def and_then_def)

text \<open>
  C7 (as amended). A source file whose extension has no parser contributes zero slide
  records, logs nothing and never raises. A source file whose contents fail to decode
  under the configured encoding contributes zero slide records and does not raise
  when the logger is absent, false or callable; \<open>log\<close> is called with a line of
  severity \<open>warning\<close> that names the file. In both cases the walk of the other
  sources gives what it gives without the file, in a list of sources and in a
  directory.
\<close>

theorem skipped_file_contributes_nothing:
  assumes "new_parser env (splitext_ext source) (g_encoding self) (g_extensions self) = None
           \<or> (logger_ok self \<and> contents (g_encoding self) = UnicodeDecodeError)"
  shows "outcome (fetch_contents env self (Path source (File contents))) = Inr []
       \<and> (new_parser env (splitext_ext source) (g_encoding self) (g_extensions self) = None
            \<longrightarrow> fetch_contents env self (Path source (File contents)) = Inr ([], []))
       \<and> (new_parser env (splitext_ext source) (g_encoding self) (g_extensions self)
              = Some (format, parse) \<longrightarrow>
            fetch_contents env self (Path source (File contents)) =
              Inr ([], if g_verbose self \<and> truthy (g_logger self)
                       then [(''Adding   '' @ source @ '' ('' @ format @ '')'', ''notice''),
                             (''Unable to decode source '' @ source @ '': skipping'',
                              ''warning''),
                             (''Exiting  '' @ source @ '': no contents found'', ''notice'')]
                       else []))
       \<and> outcome (fetch_contents env self
                     (Sources (earlier @ Path source (File contents) # later))) =
           outcome (fetch_contents env self (Sources (earlier @ later)))
       \<and> (path_join dir entry = source
            \<and> (\<forall>e\<in>set listing. fst e = entry \<longrightarrow> snd e = File contents) \<longrightarrow>
            outcome (fetch_contents env self (Path dir (Dir listing))) =
            outcome (fetch_contents env self
                       (Path dir (Dir (filter (\<lambda>e. fst e \<noteq> entry) listing)))))"
proof -
  have a: "outcome (fetch_contents env self (Path source (File contents))) = Inr []"
  proof (cases "new_parser env (splitext_ext source) (g_encoding self) (g_extensions self)")
    case None
    then show ?thesis by simp
  next
    case (Some p)
    obtain format' parse' where "p = (format', parse')" by (cases p)
    then show ?thesis
      using assms Some fetch_decode_error [of env source self format' parse' contents] by simp
  qed
  have b: "new_parser env (splitext_ext source) (g_encoding self) (g_extensions self) = None
            \<longrightarrow> fetch_contents env self (Path source (File contents)) = Inr ([], [])"
    by simp
  have c: "new_parser env (splitext_ext source) (g_encoding self) (g_extensions self)
              = Some (format, parse) \<longrightarrow>
            fetch_contents env self (Path source (File contents)) =
              Inr ([], if g_verbose self \<and> truthy (g_logger self)
                       then [(''Adding   '' @ source @ '' ('' @ format @ '')'', ''notice''),
                             (''Unable to decode source '' @ source @ '': skipping'',
                              ''warning''),
                             (''Exiting  '' @ source @ '': no contents found'', ''notice'')]
                       else [])"
    using assms fetch_decode_error [of env source self format parse contents] by auto
  have d: "outcome (fetch_contents env self
                     (Sources (earlier @ Path source (File contents) # later))) =
           outcome (fetch_contents env self (Sources (earlier @ later)))"
    using outcome_extend_each_skip [of "\<lambda>entry. fetch_contents env self entry"
        "Path source (File contents)" earlier later] a
    by (simp add: outcome_exiting_cong del: extend_each.simps)
  have e: "path_join dir entry = source
            \<and> (\<forall>e\<in>set listing. fst e = entry \<longrightarrow> snd e = File contents) \<longrightarrow>
            outcome (fetch_contents env self (Path dir (Dir listing))) =
            outcome (fetch_contents env self
                       (Path dir (Dir (filter (\<lambda>e. fst e \<noteq> entry) listing))))"
  proof (intro impI, elim conjE)
    assume p: "path_join dir entry = source"
      and h: "\<forall>e\<in>set listing. fst e = entry \<longrightarrow> snd e = File contents"
    let ?f = "\<lambda>(entry, node). fetch_contents env self (Path (path_join dir entry) node)"
    have "\<forall>x\<in>set (sort_key fst listing). \<not> fst x \<noteq> entry \<longrightarrow> outcome (?f x) = Inr []"
      using h p a by (auto simp: case_prod_beta simp del: fetch_contents.simps)
    then have "outcome (extend_each ?f (filter (\<lambda>e. fst e \<noteq> entry) (sort_key fst listing))) =
               outcome (extend_each ?f (sort_key fst listing))"
      by (rule outcome_extend_each_filter)
    then have "outcome (extend_each ?f (sort_key fst (filter (\<lambda>e. fst e \<noteq> entry) listing))) =
               outcome (extend_each ?f (sort_key fst listing))"
      by (simp add: filter_sort)
    then show "outcome (fetch_contents env self (Path dir (Dir listing))) =
            outcome (fetch_contents env self
                       (Path dir (Dir (filter (\<lambda>e. fst e \<noteq> entry) listing))))"
      by (simp add: outcome_exiting_cong outcome_followed_by_cong)
  qed
  from a b c d e show ?thesis by blast
qed

theorem skipped_file_contributes_nothing_witness:
  "(logger_ok (example_generator (PyCallable 0) True [])
      \<and> (\<lambda>encoding. UnicodeDecodeError) (g_encoding (example_generator (PyCallable 0) True []))
          = UnicodeDecodeError)
   \<and> fetch_contents example_env (example_generator (PyCallable 0) True [])
        (Path ''slides.md'' (File (\<lambda>encoding. UnicodeDecodeError))) =
       Inr ([], [(''Adding   slides.md (markdown)'', ''notice''),
                 (''Unable to decode source slides.md: skipping'', ''warning''),
                 (''Exiting  slides.md: no contents found'', ''notice'')])
   \<and> fetch_contents example_env (example_generator (PyInt 5) False [])
        (Path ''logo.bin'' (File (\<lambda>encoding. ReadOk ''x''))) = Inr ([], [])"
proof -
  let ?g = "example_generator (PyCallable 0) True []"
  have h: "logger_ok ?g \<and> (\<lambda>encoding. UnicodeDecodeError) (g_encoding ?g) = UnicodeDecodeError"
    by (simp add: logger_ok_def example_generator_def example_kwargs_def init_attributes_def
          get_or_def)
  have p: "new_parser example_env (splitext_ext ''slides.md'') (g_encoding ?g) (g_extensions ?g)
             = Some (''markdown'', \<lambda>text. text)"
    by (simp add: example_env_def splitext_ext_def Let_def)
  have v: "g_verbose ?g \<and> truthy (g_logger ?g)"
    by (simp add: example_generator_def example_kwargs_def init_attributes_def get_or_def)
  have a: "fetch_contents example_env ?g
        (Path ''slides.md'' (File (\<lambda>encoding. UnicodeDecodeError))) =
       Inr ([], [(''Adding   slides.md (markdown)'', ''notice''),
                 (''Unable to decode source slides.md: skipping'', ''warning''),
                 (''Exiting  slides.md: no contents found'', ''notice'')])"
    using skipped_file_contributes_nothing [where env = example_env and self = ?g
        and source = "''slides.md''" and contents = "\<lambda>encoding. UnicodeDecodeError"
        and format = "''markdown''" and parse = "\<lambda>text. text", OF disjI2, OF h,
        THEN conjunct2, THEN conjunct2, THEN conjunct1] p v
    by (simp del: fetch_contents.simps)
  let ?b = "example_generator (PyInt 5) False []"
  have q: "new_parser example_env (splitext_ext ''logo.bin'') (g_encoding ?b) (g_extensions ?b)
             = None"
    by (simp add: example_env_def splitext_ext_def Let_def)
  have b: "fetch_contents example_env ?b
        (Path ''logo.bin'' (File (\<lambda>encoding. ReadOk ''x''))) = Inr ([], [])"
    using skipped_file_contributes_nothing [where env = example_env and self = ?b
        and source = "''logo.bin''" and contents = "\<lambda>encoding. ReadOk ''x''",
        OF disjI1, OF q, THEN conjunct2, THEN conjunct1] q
    by (simp del: fetch_contents.simps)
  from h a b show ?thesis by blast
qed

theorem skipped_file_counterexample:
  "Generator_init example_env example_class ''slides.md''
       (example_kwargs (Some (PyInt 5)) False) =
     Inr ((example_generator (PyInt 5) False [], example_class), [])
   \<and> fetch_contents example_env (example_generator (PyInt 5) False [])
        (Path ''slides.md'' (File (\<lambda>encoding. UnicodeDecodeError))) =
       Inl (ValueError ''Invalid logger set, must be a callable'')"
proof -
  let ?b = "example_generator (PyInt 5) False []"
  have p: "new_parser example_env (splitext_ext ''slides.md'') (g_encoding ?b) (g_extensions ?b)
             = Some (''markdown'', \<lambda>text. text)"
    by (simp add: example_env_def splitext_ext_def Let_def)
  have l: "log ?b message severity = Inl (ValueError ''Invalid logger set, must be a callable'')"
    for message severity
    by (simp add: log_def example_generator_def example_kwargs_def init_attributes_def get_or_def)
  have "fetch_contents example_env ?b
        (Path ''slides.md'' (File (\<lambda>encoding. UnicodeDecodeError))) =
       Inl (ValueError ''Invalid logger set, must be a callable'')"
    by (simp add: p l followed_by_simps exiting_def and_then_def)
  then show ?thesis using init_example [of "PyInt 5" False] by blast
qed

subsection \<open>Directories\<close>








end
